theory Spec2Isabelle
  imports Complex_Main "HOL-Library.Monad_Syntax"
begin

section \<open>Parameter transforms of \<open>exoplanet/distributions/transforms.py\<close>\<close>

text \<open>
  The transforms are modelled over the real numbers: a scalar tensor is a \<^typ>\<open>real\<close>,
  a tensor stacked from two components along axis 0 is a pair, and a batch along the
  trailing axis is a list. Floating-point rounding is outside the model.

  The primitives of the tensor library are the real functions of the same name. Three of
  them are partial on the reals and return a non-finite value in the program: a division
  by zero, the logarithm of a non-positive number and the square root of a negative
  number. HOL totalises them by convention (\<open>x / 0 = 0\<close>, \<open>ln 0 = 0\<close>,
  \<open>ln (- x) = ln x\<close>, \<open>sqrt (- x) = - sqrt x\<close>). The predicates \<open>\<dots>_defined\<close> at
  the end of the definitions say where the primitives of a function are applied inside
  their domains, and the theorems that give a value of \<open>forward\<close> or \<open>backward\<close> prove
  them, or assume them, on the inputs they are about. The comparison of the numeric path
  with the graph path needs none: both paths apply the same primitives to the same
  arguments.
\<close>

subsection \<open>Primitives\<close>

text \<open>\<open>tt.nnet.sigmoid\<close> and \<open>tt.nnet.softplus\<close>.\<close>

definition sigmoid :: "real \<Rightarrow> real" where
  "sigmoid y = 1 / (1 + exp (- y))"

definition softplus :: "real \<Rightarrow> real" where
  "softplus x = ln (1 + exp x)"

text \<open>
  \<open>theano.gradient\<close> of a scalar function at a point: the derivative, where there is one.
\<close>

definition gradient :: "(real \<Rightarrow> real) \<Rightarrow> real \<Rightarrow> real" where
  "gradient f y = (THE D. (f has_real_derivative D) (at y))"

text \<open>
  \<open>tt.arctan2 y x\<close>: the angle of the point \<open>(x, y)\<close>, in \<open>(-pi, pi]\<close>, and \<open>0\<close> at the
  origin.
\<close>

definition arctan2 :: "real \<Rightarrow> real \<Rightarrow> real" where
  "arctan2 y x =
     (if 0 < x then arctan (y / x)
      else if x < 0 \<and> 0 \<le> y then arctan (y / x) + pi
      else if x < 0 \<and> y < 0 then arctan (y / x) - pi
      else if 0 < y then pi / 2
      else if y < 0 then - (pi / 2)
      else 0)"

text \<open>The only exception the module raises.\<close>

datatype error = NotImplementedError

subsection \<open>\<open>AbsoluteValueTransform\<close>\<close>

definition AbsoluteValue_backward :: "real \<Rightarrow> real" where
  "AbsoluteValue_backward y = (let u = 2 * sigmoid y - 1 in \<bar>u\<bar>)"

definition AbsoluteValue_forward :: "real \<Rightarrow> real" where
  "AbsoluteValue_forward x = (let q = 0.5 * (x + 1) in ln q - ln (1 - q))"

definition AbsoluteValue_forward_val :: "real \<Rightarrow> real" where
  "AbsoluteValue_forward_val x = (let q = 0.5 * (x + 1) in ln q - ln (1 - q))"

definition AbsoluteValue_jacobian_det :: "real \<Rightarrow> real" where
  "AbsoluteValue_jacobian_det y = - 2 * softplus (- y) - y"

subsection \<open>\<open>UnitVectorTransform\<close>\<close>

text \<open>The vector lies along the last axis; it is a list.\<close>

definition UnitVector_backward :: "real list \<Rightarrow> real list" where
  "UnitVector_backward y =
     (let norm = sqrt (sum_list (map (\<lambda>v. v ^ 2) y)) in map (\<lambda>v. v / norm) y)"

definition UnitVector_forward :: "real list \<Rightarrow> real list" where
  "UnitVector_forward x = x"

subsection \<open>\<open>UnitDiskTransform\<close>\<close>

text \<open>
  The class itself; the exported \<open>unit_disk\<close> chains it with the interval transform of the
  sampling library, which is not part of this module.
\<close>

definition UnitDisk_backward :: "real \<times> real \<Rightarrow> real \<times> real" where
  "UnitDisk_backward y = (fst y, snd y * sqrt (1 - fst y ^ 2))"

definition UnitDisk_forward :: "real \<times> real \<Rightarrow> real \<times> real" where
  "UnitDisk_forward x = (fst x, snd x / sqrt (1 - fst x ^ 2))"

subsection \<open>\<open>AngleTransform\<close>\<close>

definition Angle_backward :: "real \<times> real \<Rightarrow> real" where
  "Angle_backward y = arctan2 (fst y) (snd y)"

definition Angle_forward :: "real \<Rightarrow> real \<times> real" where
  "Angle_forward x = (sin x, cos x)"

subsection \<open>\<open>PeriodicTransform\<close>\<close>

text \<open>The two fields that \<open>backward\<close> and \<open>forward\<close> read.\<close>

record PeriodicTransform =
  mid :: real
  delta :: real

definition Periodic_init :: "real \<Rightarrow> real \<Rightarrow> error + PeriodicTransform" where
  "Periodic_init lower upper =
     Inr \<lparr>mid = 0.5 * (lower + upper), delta = 0.5 * (upper - lower) / pi\<rparr>"

definition Periodic_backward :: "PeriodicTransform \<Rightarrow> real \<times> real \<Rightarrow> real" where
  "Periodic_backward t y = mid t + delta t * arctan2 (fst y) (snd y)"

definition Periodic_forward :: "PeriodicTransform \<Rightarrow> real \<Rightarrow> real \<times> real" where
  "Periodic_forward t x = (let a = (x - mid t) / delta t in (sin a, cos a))"

subsection \<open>\<open>QuadLimbDarkTransform\<close>\<close>

definition QuadLimbDark_backward :: "real \<times> real \<Rightarrow> real \<times> real" where
  "QuadLimbDark_backward y =
     (let q = (sigmoid (fst y), sigmoid (snd y));
          sqrtq1 = sqrt (fst q);
          twoq2 = 2 * snd q
      in (sqrtq1 * twoq2, sqrtq1 * (1 - twoq2)))"

definition QuadLimbDark_forward :: "real \<times> real \<Rightarrow> real \<times> real" where
  "QuadLimbDark_forward x =
     (let usum = fst x + snd x;
          q = (usum ^ 2, 0.5 * fst x / usum)
      in (ln (fst q) - ln (1 - fst q), ln (snd q) - ln (1 - snd q)))"

definition QuadLimbDark_jacobian_det :: "real \<times> real \<Rightarrow> real \<times> real" where
  "QuadLimbDark_jacobian_det y =
     (- 2 * softplus (- fst y) - fst y, - 2 * softplus (- snd y) - snd y)"

subsection \<open>\<open>RadiusImpactTransform\<close>\<close>

text \<open>
  The object holds the two bounds and the two quantities \<open>__init__\<close> derives from them.
  \<open>__init__\<close> has no check and no \<open>raise\<close>: it returns the object for every pair of
  bounds. Its result is a sum so that a failing construction could be told apart. The
  bounds are real numbers, as floating-point bounds are up to rounding; bounds given as
  integers make integer tensors, whose arithmetic wraps, and are outside the model. The
  stored \<open>Ar\<close> is the quotient only where \<open>RadiusImpact_init_defined\<close> holds.
\<close>

record RadiusImpactTransform =
  min_radius :: real
  max_radius :: real
  dr :: real
  Ar :: real

definition RadiusImpact_init :: "real \<Rightarrow> real \<Rightarrow> error + RadiusImpactTransform" where
  "RadiusImpact_init min_r max_r =
     (let d = max_r - min_r;
          denom = 2 + min_r + max_r
      in Inr \<lparr>min_radius = min_r, max_radius = max_r, dr = d, Ar = d / denom\<rparr>)"

definition RadiusImpact_backward :: "RadiusImpactTransform \<Rightarrow> real \<times> real \<Rightarrow> real \<times> real" where
  "RadiusImpact_backward t y =
     (let r1 = sigmoid (fst y);
          r2 = sigmoid (snd y);
          pl = min_radius t;
          pu = max_radius t;
          b1 = (1 + pl) * (1 + (r1 - 1) / (1 - Ar t));
          p1 = pl + r2 * dr t;
          q1 = r1 / Ar t;
          q2 = r2;
          b2 = (1 + pl) + sqrt q1 * q2 * dr t;
          p2 = pu - dr t * sqrt q1 * (1 - q2)
      in if r1 > Ar t then (p1, b1) else (p2, b2))"

definition RadiusImpact_forward :: "RadiusImpactTransform \<Rightarrow> real \<times> real \<Rightarrow> real \<times> real" where
  "RadiusImpact_forward t x =
     (let p = fst x;
          b = snd x;
          pl = min_radius t;
          r11 = (b / (1 + pl) - 1) * (1 - Ar t) + 1;
          r21 = (p - pl) / dr t;
          arg = p - b - dr t + 1;
          q1 = (arg / dr t) ^ 2;
          q2 = (pl - b + 1) / arg;
          r12 = q1 * Ar t;
          r22 = q2;
          y = (if b \<le> 1 then (r11, r21) else (r12, r22))
      in (ln (fst y) - ln (1 - fst y), ln (snd y) - ln (1 - snd y)))"

definition RadiusImpact_jacobian_det :: "real \<times> real \<Rightarrow> real \<times> real" where
  "RadiusImpact_jacobian_det y =
     (- 2 * softplus (- fst y) - fst y, - 2 * softplus (- snd y) - snd y)"

text \<open>
  The two alternatives that \<open>tt.switch\<close> chooses between, named: in \<open>backward\<close> as
  functions of \<open>r1, r2 = sigmoid y\<close>, in \<open>forward\<close> as functions of \<open>p, b\<close> (the values
  before the final logit).
\<close>

definition RadiusImpact_backward_A :: "RadiusImpactTransform \<Rightarrow> real \<Rightarrow> real \<Rightarrow> real \<times> real" where
  "RadiusImpact_backward_A t r1 r2 =
     (min_radius t + r2 * dr t, (1 + min_radius t) * (1 + (r1 - 1) / (1 - Ar t)))"

definition RadiusImpact_backward_B :: "RadiusImpactTransform \<Rightarrow> real \<Rightarrow> real \<Rightarrow> real \<times> real" where
  "RadiusImpact_backward_B t r1 r2 =
     (max_radius t - dr t * sqrt (r1 / Ar t) * (1 - r2),
      (1 + min_radius t) + sqrt (r1 / Ar t) * r2 * dr t)"

definition RadiusImpact_forward_A :: "RadiusImpactTransform \<Rightarrow> real \<Rightarrow> real \<Rightarrow> real \<times> real" where
  "RadiusImpact_forward_A t p b =
     ((b / (1 + min_radius t) - 1) * (1 - Ar t) + 1, (p - min_radius t) / dr t)"

definition RadiusImpact_forward_B :: "RadiusImpactTransform \<Rightarrow> real \<Rightarrow> real \<Rightarrow> real \<times> real" where
  "RadiusImpact_forward_B t p b =
     (((p - b - dr t + 1) / dr t) ^ 2 * Ar t, (min_radius t - b + 1) / (p - b - dr t + 1))"

subsection \<open>\<open>RadiusImpactTransform.forward_val\<close>: the numeric path on a batch\<close>

text \<open>
  The array operations of the numeric library that \<open>forward_val\<close> uses, on one-dimensional
  arrays. \<open>mask_get a m\<close> is \<open>a[m]\<close> for a boolean mask \<open>m\<close>, \<open>mask_set r m v\<close> is the
  array \<open>r\<close> after \<open>r[m] = v\<close>, and \<open>elementwise\<close> is a binary operation on two arrays
  of the same shape. \<open>None\<close> stands for the cases in which the shapes do not fit (the
  library raises there, or broadcasts an array of length one); \<open>forward_val\<close> never
  reaches them on a well-shaped input, which is part of what is proved below.
\<close>

fun mask_get :: "'a list \<Rightarrow> bool list \<Rightarrow> 'a list option" where
  "mask_get [] [] = Some []"
| "mask_get (x # xs) (c # cs) = map_option (\<lambda>r. if c then x # r else r) (mask_get xs cs)"
| "mask_get _ _ = None"

fun mask_set :: "'a list \<Rightarrow> bool list \<Rightarrow> 'a list \<Rightarrow> 'a list option" where
  "mask_set [] [] [] = Some []"
| "mask_set (r # rs) (True # cs) (v # vs) = map_option ((#) v) (mask_set rs cs vs)"
| "mask_set (r # rs) (False # cs) vs = map_option ((#) r) (mask_set rs cs vs)"
| "mask_set _ _ _ = None"

definition elementwise :: "('a \<Rightarrow> 'b \<Rightarrow> 'c) \<Rightarrow> 'a list \<Rightarrow> 'b list \<Rightarrow> 'c list option" where
  "elementwise f xs ys = (if length xs = length ys then Some (map2 f xs ys) else None)"

text \<open>
  An array has a dtype, and a store into an array casts the stored value to the dtype of
  the array. Two dtypes are modelled: \<open>float64\<close>, whose cast changes nothing up to
  rounding, and \<open>int64\<close>, whose cast truncates towards zero. Values that do not fit
  \<open>int64\<close> are outside the model.
\<close>

datatype dtype = float64 | int64

definition astype :: "dtype \<Rightarrow> real \<Rightarrow> real" where
  "astype dt v =
     (case dt of
        float64 \<Rightarrow> v
      | int64 \<Rightarrow> (if 0 \<le> v then of_int \<lfloor>v\<rfloor> else of_int \<lceil>v\<rceil>))"

text \<open>
  The input \<open>x\<close> has shape \<open>(2, N)\<close> and dtype \<open>dt\<close>: the row \<open>p = x[0]\<close> and the row
  \<open>b = x[1]\<close>. \<open>r_empty\<close> is the content of \<open>np.empty_like(x)\<close>, which is arbitrary;
  the array \<open>r\<close> has the dtype of \<open>x\<close>, so each of the four stores into \<open>r\<close> casts
  to \<open>dt\<close>. The right-hand sides are divisions and are computed in floating point
  whatever the dtype of \<open>x\<close>, and so is the last line. The transform has concrete
  bounds, so \<open>draw_values\<close> returns the values of \<open>min_radius - 0.0\<close>, \<open>Ar - 0.0\<close> and
  \<open>dr - 0.0\<close> and \<open>point\<close> is not used.
\<close>

definition RadiusImpact_forward_val ::
  "dtype \<Rightarrow> RadiusImpactTransform \<Rightarrow> real list \<times> real list \<Rightarrow> real list \<times> real list
     \<Rightarrow> (real list \<times> real list) option" where
  "RadiusImpact_forward_val dt t r_empty x =
     (let p = fst x;
          b = snd x;
          pl = min_radius t - 0;
          Ar' = Ar t - 0;
          dr' = dr t - 0;
          m = map (\<lambda>v. v \<le> 1) b;
          not_m = map Not m
      in do {
        bm \<leftarrow> mask_get b m;
        r0 \<leftarrow> mask_set (fst r_empty) m
               (map (astype dt) (map (\<lambda>v. (v / (1 + pl) - 1) * (1 - Ar') + 1) bm));
        pm \<leftarrow> mask_get p m;
        r1 \<leftarrow> mask_set (snd r_empty) m (map (astype dt) (map (\<lambda>v. (v - pl) / dr') pm));
        pn \<leftarrow> mask_get p not_m;
        bn \<leftarrow> mask_get b not_m;
        arg \<leftarrow> elementwise (\<lambda>pv bv. pv - bv - dr' + 1) pn bn;
        let q1 = map (\<lambda>a. (a / dr') ^ 2) arg;
        q2 \<leftarrow> elementwise (\<lambda>bv a. (pl - bv + 1) / a) bn arg;
        r0' \<leftarrow> mask_set r0 not_m (map (astype dt) (map (\<lambda>q. q * Ar') q1));
        r1' \<leftarrow> mask_set r1 not_m (map (astype dt) q2);
        Some (map (\<lambda>v. ln v - ln (1 - v)) r0', map (\<lambda>v. ln v - ln (1 - v)) r1')
      })"

text \<open>
  The graph path on the same batch: every operation of \<open>forward\<close> is elementwise along
  the trailing axis (the parameters are scalars and broadcast, and \<open>tt.switch\<close> selects
  per element), so column \<open>i\<close> of the result is \<open>forward\<close> of column \<open>i\<close> of \<open>x\<close>.
\<close>

definition RadiusImpact_forward_batch ::
  "RadiusImpactTransform \<Rightarrow> real list \<times> real list \<Rightarrow> real list \<times> real list" where
  "RadiusImpact_forward_batch t x =
     (let ys = map (RadiusImpact_forward t) (zip (fst x) (snd x))
      in (map fst ys, map snd ys))"

subsection \<open>\<open>ImpactParameterTransform\<close>\<close>

text \<open>
  The class extends \<open>LogOdds\<close> of the sampling library, which is not part of this module.
  \<open>LogOdds\<close> is the logistic transform: \<open>backward\<close> is the inverse logit, \<open>forward\<close> the
  logit, and \<open>jacobian_det\<close>, inherited from the elementwise base class, is the logarithm of
  the absolute gradient of \<open>self.backward\<close>. The last one is a method of the object it is
  called on: reached through \<open>super\<close> from a subclass, it differentiates the
  \<open>backward\<close> of the subclass (the comment in \<open>ImpactParameterTransform.jacobian_det\<close>
  says so). The model therefore passes \<open>self.backward\<close> to it.
\<close>

definition LogOdds_backward :: "real \<Rightarrow> real" where
  "LogOdds_backward x = sigmoid x"

definition LogOdds_forward :: "real \<Rightarrow> real" where
  "LogOdds_forward x = ln (x / (1 - x))"

definition LogOdds_forward_val :: "real \<Rightarrow> real" where
  "LogOdds_forward_val x = ln (x / (1 - x))"

definition Elemwise_jacobian_det :: "(real \<Rightarrow> real) \<Rightarrow> real \<Rightarrow> real" where
  "Elemwise_jacobian_det self_backward x = ln \<bar>gradient self_backward x\<bar>"

text \<open>The \<open>jacobian_det\<close> of a plain \<open>LogOdds\<close> object.\<close>

definition LogOdds_jacobian_det :: "real \<Rightarrow> real" where
  "LogOdds_jacobian_det x = Elemwise_jacobian_det LogOdds_backward x"

record ImpactParameterTransform =
  one_plus_ror :: real

definition ImpactParameter_init :: "real \<Rightarrow> error + ImpactParameterTransform" where
  "ImpactParameter_init ror = Inr \<lparr>one_plus_ror = 1 + ror\<rparr>"

definition ImpactParameter_backward :: "ImpactParameterTransform \<Rightarrow> real \<Rightarrow> real" where
  "ImpactParameter_backward t x = (let bhat = LogOdds_backward x in bhat * one_plus_ror t)"

definition ImpactParameter_backward_val :: "ImpactParameterTransform \<Rightarrow> real \<Rightarrow> error + real" where
  "ImpactParameter_backward_val t x = Inl NotImplementedError"

definition ImpactParameter_forward :: "ImpactParameterTransform \<Rightarrow> real \<Rightarrow> real" where
  "ImpactParameter_forward t x = LogOdds_forward (x / one_plus_ror t)"

definition ImpactParameter_forward_val :: "ImpactParameterTransform \<Rightarrow> real \<Rightarrow> real" where
  "ImpactParameter_forward_val t x = (let opror = one_plus_ror t in LogOdds_forward_val (x / opror))"

definition ImpactParameter_jacobian_det :: "ImpactParameterTransform \<Rightarrow> real \<Rightarrow> real" where
  "ImpactParameter_jacobian_det t y =
     (let jac = Elemwise_jacobian_det (ImpactParameter_backward t) y
      in jac - ln (one_plus_ror t))"

subsection \<open>Where the partial primitives are defined\<close>

text \<open>
  For each function that divides, takes a logarithm or takes a square root: every divisor
  is not zero, every argument of a square root is not negative, and every \<open>r\<close> in
  \<open>log r - log (1 - r)\<close> lies strictly between \<open>0\<close> and \<open>1\<close>. In \<open>forward\<close> of
  \<open>RadiusImpactTransform\<close> only the alternative that \<open>tt.switch\<close> selects counts.
\<close>

definition in_unit :: "real \<Rightarrow> bool" where
  "in_unit r = (0 < r \<and> r < 1)"

definition RadiusImpact_init_defined :: "real \<Rightarrow> real \<Rightarrow> bool" where
  "RadiusImpact_init_defined min_r max_r = (2 + min_r + max_r \<noteq> 0)"

definition RadiusImpact_backward_defined :: "RadiusImpactTransform \<Rightarrow> real \<times> real \<Rightarrow> bool" where
  "RadiusImpact_backward_defined t y =
     (1 - Ar t \<noteq> 0 \<and> Ar t \<noteq> 0 \<and> 0 \<le> sigmoid (fst y) / Ar t)"

definition AbsoluteValue_forward_defined :: "real \<Rightarrow> bool" where
  "AbsoluteValue_forward_defined x = in_unit (0.5 * (x + 1))"

definition UnitVector_backward_defined :: "real list \<Rightarrow> bool" where
  "UnitVector_backward_defined y =
     (0 \<le> sum_list (map (\<lambda>v. v ^ 2) y) \<and> sqrt (sum_list (map (\<lambda>v. v ^ 2) y)) \<noteq> 0)"

definition UnitDisk_forward_defined :: "real \<times> real \<Rightarrow> bool" where
  "UnitDisk_forward_defined x = (0 \<le> 1 - fst x ^ 2 \<and> sqrt (1 - fst x ^ 2) \<noteq> 0)"

definition Periodic_forward_defined :: "PeriodicTransform \<Rightarrow> real \<Rightarrow> bool" where
  "Periodic_forward_defined t x = (delta t \<noteq> 0)"

definition QuadLimbDark_forward_defined :: "real \<times> real \<Rightarrow> bool" where
  "QuadLimbDark_forward_defined x =
     (fst x + snd x \<noteq> 0 \<and> in_unit ((fst x + snd x) ^ 2)
      \<and> in_unit (0.5 * fst x / (fst x + snd x)))"

definition RadiusImpact_forward_defined :: "RadiusImpactTransform \<Rightarrow> real \<times> real \<Rightarrow> bool" where
  "RadiusImpact_forward_defined t x =
     (if snd x \<le> 1
      then 1 + min_radius t \<noteq> 0 \<and> dr t \<noteq> 0
         \<and> in_unit (fst (RadiusImpact_forward_A t (fst x) (snd x)))
         \<and> in_unit (snd (RadiusImpact_forward_A t (fst x) (snd x)))
      else dr t \<noteq> 0 \<and> fst x - snd x - dr t + 1 \<noteq> 0
         \<and> in_unit (fst (RadiusImpact_forward_B t (fst x) (snd x)))
         \<and> in_unit (snd (RadiusImpact_forward_B t (fst x) (snd x))))"

definition ImpactParameter_forward_defined :: "ImpactParameterTransform \<Rightarrow> real \<Rightarrow> bool" where
  "ImpactParameter_forward_defined t x =
     (one_plus_ror t \<noteq> 0 \<and> in_unit (x / one_plus_ror t))"

section \<open>Facts about the primitives\<close>

lemma sigmoid_pos: "0 < sigmoid y"
  by (simp add: sigmoid_def add_pos_pos)

lemma sigmoid_less_one: "sigmoid y < 1"
  by (simp add: sigmoid_def add_pos_pos)

lemma sigmoid_zero: "sigmoid 0 = 1 / 2"
  by (simp add: sigmoid_def)

section \<open>\<open>AbsoluteValueTransform\<close>: range of \<open>backward\<close>\<close>

text \<open>
  C10. For every real \<open>y\<close>, \<open>backward y = \<bar>2 * sigmoid y - 1\<bar>\<close> lies in the half-open
  interval \<open>[0, 1)\<close>; in particular it is never a point of the negative half \<open>(-1, 0)\<close> of
  the constrained domain.
\<close>

theorem AbsoluteValue_backward_range:
  "0 \<le> AbsoluteValue_backward y \<and> AbsoluteValue_backward y < 1
   \<and> \<not> (- 1 < AbsoluteValue_backward y \<and> AbsoluteValue_backward y < 0)"
proof -
  have "0 < sigmoid y" "sigmoid y < 1"
    by (rule sigmoid_pos, rule sigmoid_less_one)
  then have "\<bar>2 * sigmoid y - 1\<bar> < 1"
    by (simp add: abs_less_iff)
  then show ?thesis
    by (simp add: AbsoluteValue_backward_def)
qed

section \<open>\<open>QuadLimbDarkTransform\<close>: the value at the origin\<close>

text \<open>
  C3 (as the program computes it). \<open>backward\<close> of the 2-vector \<open>[0, 0]\<close> is
  \<open>[sqrt 0.5, 0]\<close>: both components of \<open>sigmoid [0, 0]\<close> are \<open>0.5\<close>, so
  \<open>sqrtq1 = sqrt 0.5\<close> and \<open>twoq2 = 1\<close>.
\<close>

theorem QuadLimbDark_backward_origin:
  "QuadLimbDark_backward (0, 0) = (sqrt (1 / 2), 0)"
  by (simp add: QuadLimbDark_backward_def sigmoid_zero)

text \<open>The first component is not \<open>0.5\<close>, the value the scenario of the specification gives.\<close>

theorem QuadLimbDark_backward_origin_not_half:
  "QuadLimbDark_backward (0, 0) \<noteq> (1 / 2, 0)"
proof -
  have "sqrt (1 / 2) \<noteq> 1 / 2"
  proof
    assume h: "sqrt (1 / 2) = 1 / 2"
    have "(sqrt (1 / 2))\<^sup>2 = (1 / 2 :: real)"
      by (rule real_sqrt_pow2) simp
    then have "(1 / 2 :: real)\<^sup>2 = 1 / 2"
      by (simp only: h)
    then show False
      by (simp add: power2_eq_square)
  qed
  then show ?thesis
    by (simp add: QuadLimbDark_backward_def sigmoid_zero)
qed

section \<open>Construction and the unsupported operation\<close>

lemma RadiusImpact_init_fields:
  assumes "RadiusImpact_init pl pu = Inr t"
  shows "min_radius t = pl" and "max_radius t = pu" and "dr t = pu - pl"
    and "Ar t = (pu - pl) / (2 + pl + pu)"
  using assms by (auto simp: RadiusImpact_init_def Let_def)

text \<open>
  C8 (as the program behaves). Constructing a \<open>RadiusImpactTransform\<close> whose
  \<open>max_radius\<close> is less than or equal to its \<open>min_radius\<close> does not fail: \<open>__init__\<close>
  raises no error and returns the object, so the configuration is accepted at
  construction time.
\<close>

theorem RadiusImpact_init_no_validation:
  "max_r \<le> min_r \<Longrightarrow>
     \<not> isl (RadiusImpact_init min_r max_r) \<and> RadiusImpact_init min_r max_r \<noteq> Inl e"
  by (simp add: RadiusImpact_init_def Let_def)

theorem RadiusImpact_init_no_validation_witness:
  "(1 :: real) \<le> 2 \<and> \<not> isl (RadiusImpact_init 2 1)
   \<and> RadiusImpact_init 2 1 \<noteq> Inl NotImplementedError"
proof -
  have le: "(1 :: real) \<le> 2" by simp
  from RadiusImpact_init_no_validation [OF le, of NotImplementedError] le show ?thesis
    by blast
qed

text \<open>
  With \<open>min_radius = 2\<close> and \<open>max_radius = 1\<close> the construction succeeds; the object
  carries a negative \<open>dr\<close> and \<open>Ar\<close>.
\<close>

theorem RadiusImpact_init_accepts_reversed_bounds:
  "RadiusImpact_init 2 1 = Inr \<lparr>min_radius = 2, max_radius = 1, dr = - 1, Ar = - 1 / 5\<rparr>"
  by (simp add: RadiusImpact_init_def Let_def)

text \<open>
  C9. For every transform and every input, \<open>ImpactParameterTransform.backward_val\<close> raises
  \<open>NotImplementedError\<close>; it returns no value.
\<close>

theorem ImpactParameter_backward_val_unsupported:
  "ImpactParameter_backward_val t x = Inl NotImplementedError
   \<and> ImpactParameter_backward_val t x \<noteq> Inr v"
  by (simp add: ImpactParameter_backward_val_def)

section \<open>\<open>RadiusImpactTransform\<close>: the range of \<open>backward\<close>\<close>

lemma RadiusImpact_Ar_bounds:
  assumes "RadiusImpact_init pl pu = Inr t" "0 \<le> pl" "pl < pu"
  shows "0 < Ar t" and "Ar t < 1" and "0 < dr t" and "2 + pl + pu \<noteq> 0"
proof -
  have f: "dr t = pu - pl" "Ar t = (pu - pl) / (2 + pl + pu)"
    using RadiusImpact_init_fields [OF assms(1)] by simp_all
  have pos: "0 < 2 + pl + pu" using assms by simp
  show "0 < Ar t" using assms pos by (simp add: f)
  show "Ar t < 1" using assms pos by (simp add: f)
  show "0 < dr t" using assms by (simp add: f)
  show "2 + pl + pu \<noteq> 0" using pos by simp
qed

lemma RadiusImpact_backward_switch:
  "RadiusImpact_backward t y =
     (if sigmoid (fst y) > Ar t
      then RadiusImpact_backward_A t (sigmoid (fst y)) (sigmoid (snd y))
      else RadiusImpact_backward_B t (sigmoid (fst y)) (sigmoid (snd y)))"
  by (simp add: RadiusImpact_backward_def RadiusImpact_backward_A_def
      RadiusImpact_backward_B_def Let_def)

lemma backward_A_range:
  assumes t: "RadiusImpact_init pl pu = Inr t" "0 \<le> pl" "pl < pu"
    and r1: "Ar t < r1" "r1 < 1" and r2: "0 < r2" "r2 < 1"
  shows "pl < fst (RadiusImpact_backward_A t r1 r2)"
    and "fst (RadiusImpact_backward_A t r1 r2) < pu"
    and "0 < snd (RadiusImpact_backward_A t r1 r2)"
    and "snd (RadiusImpact_backward_A t r1 r2) < 1 + pl"
proof -
  note f = RadiusImpact_init_fields [OF t(1)]
  note A = RadiusImpact_Ar_bounds [OF t]
  have d: "0 < pu - pl" using t by simp
  have "0 < r2 * (pu - pl)" using r2 d by simp
  then show "pl < fst (RadiusImpact_backward_A t r1 r2)"
    by (simp add: RadiusImpact_backward_A_def f)
  have "r2 * (pu - pl) < 1 * (pu - pl)" using r2 d by (intro mult_strict_right_mono) simp_all
  then show "fst (RadiusImpact_backward_A t r1 r2) < pu"
    by (simp add: RadiusImpact_backward_A_def f)
  have one: "0 < 1 - Ar t" using A by simp
  have frac: "- 1 < (r1 - 1) / (1 - Ar t)" "(r1 - 1) / (1 - Ar t) < 0"
    using r1 one by (simp_all add: field_simps)
  have "0 < (1 + pl) * (1 + (r1 - 1) / (1 - Ar t))"
    using frac t by (intro mult_pos_pos) simp_all
  then show "0 < snd (RadiusImpact_backward_A t r1 r2)"
    by (simp add: RadiusImpact_backward_A_def f)
  have "(1 + pl) * (1 + (r1 - 1) / (1 - Ar t)) < (1 + pl) * 1"
    using frac t by (intro mult_strict_left_mono) simp_all
  then show "snd (RadiusImpact_backward_A t r1 r2) < 1 + pl"
    by (simp add: RadiusImpact_backward_A_def f)
qed

lemma backward_B_range:
  assumes t: "RadiusImpact_init pl pu = Inr t" "0 \<le> pl" "pl < pu"
    and r1: "0 < r1" "r1 \<le> Ar t" and r2: "0 < r2" "r2 < 1"
  shows "pl < fst (RadiusImpact_backward_B t r1 r2)"
    and "fst (RadiusImpact_backward_B t r1 r2) < pu"
    and "1 + pl < snd (RadiusImpact_backward_B t r1 r2)"
    and "snd (RadiusImpact_backward_B t r1 r2) \<le> 1 + fst (RadiusImpact_backward_B t r1 r2)"
    and "snd (RadiusImpact_backward_B t r1 r2) = 1 + fst (RadiusImpact_backward_B t r1 r2)
         \<longleftrightarrow> r1 = Ar t"
proof -
  note f = RadiusImpact_init_fields [OF t(1)]
  note A = RadiusImpact_Ar_bounds [OF t]
  define s where "s = sqrt (r1 / Ar t)"
  have d: "0 < pu - pl" using t by simp
  have q: "0 < r1 / Ar t" "r1 / Ar t \<le> 1" using r1 A by simp_all
  have s: "0 < s" "s \<le> 1" using q by (simp_all add: s_def)
  have s1: "s = 1 \<longleftrightarrow> r1 = Ar t" using A r1 by (auto simp: s_def)
  have fstB: "fst (RadiusImpact_backward_B t r1 r2) = pu - (pu - pl) * s * (1 - r2)"
    by (simp add: RadiusImpact_backward_B_def f s_def)
  have sndB: "snd (RadiusImpact_backward_B t r1 r2) = 1 + pl + s * r2 * (pu - pl)"
    by (simp add: RadiusImpact_backward_B_def f s_def)
  have m: "0 < s * (1 - r2)" "s * (1 - r2) < 1"
  proof -
    show "0 < s * (1 - r2)" using s r2 by simp
    have "s * (1 - r2) \<le> 1 * (1 - r2)" using s r2 by (intro mult_right_mono) simp_all
    also have "\<dots> < 1" using r2 by simp
    finally show "s * (1 - r2) < 1" .
  qed
  have "(pu - pl) * (s * (1 - r2)) < (pu - pl) * 1"
    using m d by (intro mult_strict_left_mono) simp_all
  then show "pl < fst (RadiusImpact_backward_B t r1 r2)"
    by (simp add: fstB mult.assoc)
  have "0 < (pu - pl) * (s * (1 - r2))" using m d by simp
  then show "fst (RadiusImpact_backward_B t r1 r2) < pu"
    by (simp add: fstB mult.assoc)
  have "0 < s * r2 * (pu - pl)" using s r2 d by simp
  then show "1 + pl < snd (RadiusImpact_backward_B t r1 r2)"
    by (simp add: sndB)
  have diff: "1 + fst (RadiusImpact_backward_B t r1 r2) - snd (RadiusImpact_backward_B t r1 r2)
      = (pu - pl) * (1 - s)"
    by (simp add: fstB sndB algebra_simps)
  have "0 \<le> (pu - pl) * (1 - s)" using d s by simp
  then show "snd (RadiusImpact_backward_B t r1 r2) \<le> 1 + fst (RadiusImpact_backward_B t r1 r2)"
    using diff by linarith
  have "(pu - pl) * (1 - s) = 0 \<longleftrightarrow> s = 1" using d by simp
  then show "snd (RadiusImpact_backward_B t r1 r2) = 1 + fst (RadiusImpact_backward_B t r1 r2)
         \<longleftrightarrow> r1 = Ar t"
    using diff s1 by linarith
qed

text \<open>
  C5 (as the program behaves). For \<open>0 \<le> min_radius < max_radius\<close> and every real
  \<open>y\<close>, every primitive of \<open>backward\<close> is applied inside its domain and the result
  \<open>(p, b)\<close> satisfies \<open>min_radius < p < max_radius\<close> and \<open>0 < b \<le> 1 + p\<close>.
  The upper bound on \<open>b\<close> is reached exactly when \<open>sigmoid (y[0]) = Ar\<close>, the case
  that \<open>r1 > Ar\<close> sends to the second branch.
\<close>

theorem RadiusImpact_backward_in_domain:
  assumes "RadiusImpact_init pl pu = Inr t" and "0 \<le> pl" and "pl < pu"
  shows "RadiusImpact_init_defined pl pu \<and> RadiusImpact_backward_defined t y
    \<and> pl < fst (RadiusImpact_backward t y) \<and> fst (RadiusImpact_backward t y) < pu
    \<and> 0 < snd (RadiusImpact_backward t y)
    \<and> snd (RadiusImpact_backward t y) \<le> 1 + fst (RadiusImpact_backward t y)
    \<and> (snd (RadiusImpact_backward t y) = 1 + fst (RadiusImpact_backward t y)
         \<longleftrightarrow> sigmoid (fst y) = Ar t)"
proof -
  note A = RadiusImpact_Ar_bounds [OF assms]
  let ?r1 = "sigmoid (fst y)" and ?r2 = "sigmoid (snd y)"
  have r: "0 < ?r1" "?r1 < 1" "0 < ?r2" "?r2 < 1"
    by (simp_all add: sigmoid_pos sigmoid_less_one)
  have def: "RadiusImpact_init_defined pl pu \<and> RadiusImpact_backward_defined t y"
    using A r by (simp add: RadiusImpact_init_defined_def RadiusImpact_backward_defined_def)
  show ?thesis
  proof (cases "Ar t < ?r1")
    case True
    note R = backward_A_range [OF assms True r(2) r(3) r(4)]
    have eq: "RadiusImpact_backward t y = RadiusImpact_backward_A t ?r1 ?r2"
      using True by (simp add: RadiusImpact_backward_switch)
    have "pl < fst (RadiusImpact_backward_A t ?r1 ?r2)" by (rule R(1))
    then have "snd (RadiusImpact_backward_A t ?r1 ?r2) < 1 + fst (RadiusImpact_backward_A t ?r1 ?r2)"
      using R(4) by linarith
    then show ?thesis
      using def R(1,2,3) True by (simp add: eq)
  next
    case False
    then have le: "?r1 \<le> Ar t" by simp
    note R = backward_B_range [OF assms r(1) le r(3) r(4)]
    have eq: "RadiusImpact_backward t y = RadiusImpact_backward_B t ?r1 ?r2"
      using False by (simp add: RadiusImpact_backward_switch)
    have "0 < snd (RadiusImpact_backward_B t ?r1 ?r2)"
      using R(3) assms(2) by linarith
    then show ?thesis
      using def R(1,2,4,5) by (simp add: eq)
  qed
qed

theorem RadiusImpact_backward_in_domain_witness:
  "RadiusImpact_init 0 2 = Inr \<lparr>min_radius = 0, max_radius = 2, dr = 2, Ar = 1 / 2\<rparr>
   \<and> (0::real) \<le> 0 \<and> (0::real) < 2
   \<and> 0 < snd (RadiusImpact_backward \<lparr>min_radius = 0, max_radius = 2, dr = 2, Ar = 1 / 2\<rparr> (1, 0))
   \<and> fst (RadiusImpact_backward \<lparr>min_radius = 0, max_radius = 2, dr = 2, Ar = 1 / 2\<rparr> (1, 0)) < 2"
proof -
  have i: "RadiusImpact_init 0 2 = Inr \<lparr>min_radius = 0, max_radius = 2, dr = 2, Ar = 1 / 2\<rparr>"
    by (simp add: RadiusImpact_init_def Let_def)
  have le: "(0::real) \<le> 0" and lt: "(0::real) < 2" by simp_all
  from RadiusImpact_backward_in_domain [OF i le lt, of "(1, 0)"] i show ?thesis
    by simp
qed

text \<open>
  With \<open>min_radius = 0\<close> and \<open>max_radius = 2\<close>, \<open>Ar = 1/2 = sigmoid 0\<close>: at
  \<open>y = (0, 0)\<close> the result is \<open>(p, b) = (1, 2)\<close>, so \<open>b = 1 + p\<close> and the strict
  bound \<open>b < 1 + p\<close> fails.
\<close>

theorem RadiusImpact_backward_grazing_limit:
  "RadiusImpact_init 0 2 = Inr \<lparr>min_radius = 0, max_radius = 2, dr = 2, Ar = 1 / 2\<rparr>
   \<and> RadiusImpact_backward \<lparr>min_radius = 0, max_radius = 2, dr = 2, Ar = 1 / 2\<rparr> (0, 0)
       = (1, 2)
   \<and> \<not> (snd (RadiusImpact_backward \<lparr>min_radius = 0, max_radius = 2, dr = 2, Ar = 1 / 2\<rparr> (0, 0))
         < 1 + fst (RadiusImpact_backward \<lparr>min_radius = 0, max_radius = 2, dr = 2, Ar = 1 / 2\<rparr> (0, 0)))"
  by (simp add: RadiusImpact_init_def RadiusImpact_backward_def Let_def sigmoid_zero)

section \<open>\<open>RadiusImpactTransform\<close>: the two branches at their boundaries\<close>

text \<open>
  C1 (as the program behaves). For \<open>0 \<le> min_radius < max_radius\<close>: at the boundary
  \<open>r1 = Ar\<close> of \<open>backward\<close> the two branches give the same \<open>p = pl + r2 * dr\<close>, but
  not the same \<open>b\<close>: the first gives \<open>b = 0\<close>, the second \<open>b = 1 + p\<close>. At the
  boundary \<open>b = 1\<close> of \<open>forward\<close> the two branches never give the same pair: for every
  \<open>p\<close> between the bounds (where the divisor \<open>arg\<close> of the second branch is not zero) the
  first gives \<open>r21 = (p - pl) / dr\<close> inside \<open>(0, 1)\<close> and the second gives
  \<open>r22\<close> outside \<open>(0, 1)\<close>, where the final logit has no value.
\<close>

theorem RadiusImpact_branches_at_boundary:
  assumes "RadiusImpact_init pl pu = Inr t" and "0 \<le> pl" and "pl < pu"
  shows "(0 < r2 \<and> r2 < 1 \<longrightarrow>
            RadiusImpact_backward_A t (Ar t) r2 = (pl + r2 * (pu - pl), 0)
          \<and> RadiusImpact_backward_B t (Ar t) r2 = (pl + r2 * (pu - pl), 1 + pl + r2 * (pu - pl)))
       \<and> (pl < p \<and> p < pu \<and> p - 1 - dr t + 1 \<noteq> 0 \<longrightarrow>
            0 < snd (RadiusImpact_forward_A t p 1) \<and> snd (RadiusImpact_forward_A t p 1) < 1
          \<and> \<not> (0 < snd (RadiusImpact_forward_B t p 1) \<and> snd (RadiusImpact_forward_B t p 1) < 1))"
proof (intro conjI impI)
  note f = RadiusImpact_init_fields [OF assms(1)]
  note A = RadiusImpact_Ar_bounds [OF assms]
  have one: "1 - Ar t \<noteq> 0" using A by simp
  have "(Ar t - 1) / (1 - Ar t) = - 1"
    using one by (simp add: field_simps)
  then show "RadiusImpact_backward_A t (Ar t) r2 = (pl + r2 * (pu - pl), 0)"
    by (simp add: RadiusImpact_backward_A_def f(1,2,3))
  have "Ar t / Ar t = 1" using A by simp
  then show "RadiusImpact_backward_B t (Ar t) r2
      = (pl + r2 * (pu - pl), 1 + pl + r2 * (pu - pl))"
    by (simp add: RadiusImpact_backward_B_def f(1,2,3) algebra_simps)
next
  assume p: "pl < p \<and> p < pu \<and> p - 1 - dr t + 1 \<noteq> 0"
  note f = RadiusImpact_init_fields [OF assms(1)]
  have d: "0 < pu - pl" using assms by simp
  have sA: "snd (RadiusImpact_forward_A t p 1) = (p - pl) / (pu - pl)"
    by (simp add: RadiusImpact_forward_A_def f)
  show "0 < snd (RadiusImpact_forward_A t p 1)"
    using p d by (simp add: sA)
  show "snd (RadiusImpact_forward_A t p 1) < 1"
    using p d by (simp add: sA)
  have sB: "snd (RadiusImpact_forward_B t p 1) = pl / (p - (pu - pl))"
    by (simp add: RadiusImpact_forward_B_def f)
  show "\<not> (0 < snd (RadiusImpact_forward_B t p 1) \<and> snd (RadiusImpact_forward_B t p 1) < 1)"
  proof (cases "p - (pu - pl) < 0")
    case True
    then have "pl / (p - (pu - pl)) \<le> 0"
      using assms(2) by (simp add: divide_nonneg_neg)
    then show ?thesis by (simp add: sB)
  next
    case False
    with p have pos: "0 < p - (pu - pl)" by (simp add: f)
    have "p - (pu - pl) < pl" using p by simp
    then have "1 < pl / (p - (pu - pl))" using pos by simp
    then show ?thesis by (simp add: sB)
  qed
qed

text \<open>
  With bounds \<open>0\<close> and \<open>2\<close> (\<open>Ar = 1/2\<close>) and \<open>r2 = 1/2\<close>, the branches of \<open>backward\<close>
  at \<open>r1 = Ar\<close> give \<open>(1, 0)\<close> and \<open>(1, 2)\<close>. With bounds \<open>1\<close> and \<open>3\<close> and
  \<open>p = 5/2\<close>, the branches of \<open>forward\<close> at \<open>b = 1\<close> give \<open>(2/3, 3/4)\<close> and
  \<open>(1/48, 2)\<close>.
\<close>

theorem RadiusImpact_branches_jump:
  "RadiusImpact_init 0 2 = Inr \<lparr>min_radius = 0, max_radius = 2, dr = 2, Ar = 1 / 2\<rparr>
   \<and> RadiusImpact_backward_A \<lparr>min_radius = 0, max_radius = 2, dr = 2, Ar = 1 / 2\<rparr> (1 / 2) (1 / 2)
       \<noteq> RadiusImpact_backward_B \<lparr>min_radius = 0, max_radius = 2, dr = 2, Ar = 1 / 2\<rparr> (1 / 2) (1 / 2)
   \<and> RadiusImpact_init 1 3 = Inr \<lparr>min_radius = 1, max_radius = 3, dr = 2, Ar = 1 / 3\<rparr>
   \<and> RadiusImpact_forward_A \<lparr>min_radius = 1, max_radius = 3, dr = 2, Ar = 1 / 3\<rparr> (5 / 2) 1
       = (2 / 3, 3 / 4)
   \<and> RadiusImpact_forward_B \<lparr>min_radius = 1, max_radius = 3, dr = 2, Ar = 1 / 3\<rparr> (5 / 2) 1
       = (1 / 48, 2)"
  by (simp add: RadiusImpact_init_def RadiusImpact_backward_A_def RadiusImpact_backward_B_def
      RadiusImpact_forward_A_def RadiusImpact_forward_B_def Let_def power2_eq_square)

theorem RadiusImpact_branches_at_boundary_witness:
  "RadiusImpact_init 1 3 = Inr \<lparr>min_radius = 1, max_radius = 3, dr = 2, Ar = 1 / 3\<rparr>
   \<and> (0::real) \<le> 1 \<and> (1::real) < 3
   \<and> (0::real) < 1 / 2 \<and> (1 / 2 :: real) < 1
   \<and> RadiusImpact_backward_A \<lparr>min_radius = 1, max_radius = 3, dr = 2, Ar = 1 / 3\<rparr> (1 / 3) (1 / 2) = (2, 0)
   \<and> RadiusImpact_backward_B \<lparr>min_radius = 1, max_radius = 3, dr = 2, Ar = 1 / 3\<rparr> (1 / 3) (1 / 2) = (2, 3)
   \<and> (1::real) < 5 / 2 \<and> (5 / 2 :: real) < 3 \<and> (5 / 2 :: real) - 1 - 2 + 1 \<noteq> 0
   \<and> \<not> (0 < snd (RadiusImpact_forward_B \<lparr>min_radius = 1, max_radius = 3, dr = 2, Ar = 1 / 3\<rparr> (5 / 2) 1)
        \<and> snd (RadiusImpact_forward_B \<lparr>min_radius = 1, max_radius = 3, dr = 2, Ar = 1 / 3\<rparr> (5 / 2) 1) < 1)"
proof -
  have i: "RadiusImpact_init 1 3 = Inr \<lparr>min_radius = 1, max_radius = 3, dr = 2, Ar = 1 / 3\<rparr>"
    by (simp add: RadiusImpact_init_def Let_def)
  have le: "(0::real) \<le> 1" and lt: "(1::real) < 3" by simp_all
  from RadiusImpact_branches_at_boundary [OF i le lt, of "1 / 2" "5 / 2"] i show ?thesis
    by simp
qed

section \<open>\<open>RadiusImpactTransform\<close>: the numeric path and the graph path\<close>

lemma mask_get_map: "mask_get (map h zs) (map c zs) = Some (map h (filter c zs))"
  by (induction zs) simp_all

lemma elementwise_map:
  "elementwise k (map h1 ws) (map h2 ws) = Some (map (\<lambda>w. k (h1 w) (h2 w)) ws)"
  by (induction ws) (simp_all add: elementwise_def)

lemma mask_set_map:
  "length r = length zs \<Longrightarrow>
   mask_set r (map c zs) (map f (filter c zs))
     = Some (map2 (\<lambda>rv z. if c z then f z else rv) r zs)"
proof (induction zs arbitrary: r)
  case Nil
  then show ?case by simp
next
  case (Cons z zs)
  then obtain r0 rs where r: "r = r0 # rs" "length rs = length zs"
    by (cases r) simp_all
  show ?case
    using Cons.IH [OF r(2)] by (simp add: r)
qed

lemma mask_set_twice:
  "length r = length zs \<Longrightarrow>
   map2 (\<lambda>rv z. if \<not> c z then g z else rv) (map2 (\<lambda>rv z. if c z then f z else rv) r zs) zs
     = map (\<lambda>z. if c z then f z else g z) zs"
proof (induction zs arbitrary: r)
  case Nil
  then show ?case by simp
next
  case (Cons z zs)
  then obtain r0 rs where r: "r = r0 # rs" "length rs = length zs"
    by (cases r) simp_all
  show ?case
    using Cons.IH [OF r(2)] by (simp add: r)
qed

text \<open>
  On a \<open>float64\<close> batch \<open>x\<close> of shape \<open>(2, N)\<close> the numeric path returns, and returns
  elementwise the values of the graph path \<open>forward\<close>, whatever \<open>np.empty_like\<close> left in
  the result array.
\<close>

lemma RadiusImpact_forward_val_float64_eq_forward:
  assumes "length (fst x) = length (snd x)"
    and "length (fst r_empty) = length (snd x)"
    and "length (snd r_empty) = length (snd x)"
  shows "RadiusImpact_forward_val float64 t r_empty x = Some (RadiusImpact_forward_batch t x)"
proof -
  define zs where "zs = zip (fst x) (snd x)"
  define c :: "real \<times> real \<Rightarrow> bool" where "c = (\<lambda>z. snd z \<le> 1)"
  have p: "fst x = map fst zs" and b: "snd x = map snd zs"
    using assms(1) by (simp_all add: zs_def)
  have len: "length (fst r_empty) = length zs" "length (snd r_empty) = length zs"
    using assms by (simp_all add: zs_def)
  have cast: "map (astype float64) vs = vs" for vs
    by (induction vs) (simp_all add: astype_def)
  have m: "map (\<lambda>v. v \<le> 1) (map snd zs) = map c zs"
    by (simp add: c_def)
  have nm: "map Not (map c zs) = map (\<lambda>z. \<not> c z) zs"
    by simp
  have sel: "mask_get (map h zs) (map (\<lambda>x. snd x \<le> 1) zs) = Some (map h (filter c zs))"
     "mask_get (map h zs) (map (\<lambda>x. \<not> snd x \<le> 1) zs) = Some (map h (filter (\<lambda>z. \<not> c z) zs))" for h :: "real \<times> real \<Rightarrow> real"
    using mask_get_map [of h zs c] mask_get_map [of h zs "\<lambda>z. \<not> c z"] by (simp_all add: c_def)
  have set1: "mask_set R (map (\<lambda>x. snd x \<le> 1) zs) (map f (filter c zs))
      = Some (map2 (\<lambda>rv z. if c z then f z else rv) R zs)"
    if "length R = length zs" for R and f :: "real \<times> real \<Rightarrow> real"
    using mask_set_map [OF that, of c f] by (simp add: c_def)
  have set2: "mask_set (map2 (\<lambda>rv z. if c z then f z else rv) R zs)
        (map (\<lambda>x. \<not> snd x \<le> 1) zs) (map g (filter (\<lambda>z. \<not> c z) zs))
      = Some (map (\<lambda>z. if c z then f z else g z) zs)"
    if "length R = length zs" for R and f g :: "real \<times> real \<Rightarrow> real"
  proof -
    have "length (map2 (\<lambda>rv z. if c z then f z else rv) R zs) = length zs"
      using that by simp
    from mask_set_map [OF this, of "\<lambda>z. \<not> c z" g] mask_set_twice [OF that, of c g f]
    show ?thesis by (simp add: c_def)
  qed
  have val: "RadiusImpact_forward_val float64 t r_empty x =
      Some (map (\<lambda>v. ln v - ln (1 - v))
              (map (\<lambda>z. if c z then (snd z / (1 + min_radius t) - 1) * (1 - Ar t) + 1
                         else ((fst z - snd z - dr t + 1) / dr t)\<^sup>2 * Ar t) zs),
            map (\<lambda>v. ln v - ln (1 - v))
              (map (\<lambda>z. if c z then (fst z - min_radius t) / dr t
                         else (min_radius t - snd z + 1) / (fst z - snd z - dr t + 1)) zs))"
    unfolding RadiusImpact_forward_val_def Let_def cast
    by (simp add: p b o_def sel elementwise_map set1 [OF len(1)] set1 [OF len(2)]
        set2 [OF len(1)] set2 [OF len(2)])
  have zip: "zip (fst x) (snd x) = zs"
    by (simp add: zs_def)
  have batch: "RadiusImpact_forward_batch t x =
      (map (\<lambda>z. fst (RadiusImpact_forward t z)) zs, map (\<lambda>z. snd (RadiusImpact_forward t z)) zs)"
    by (simp add: RadiusImpact_forward_batch_def Let_def zip o_def)
  have point: "RadiusImpact_forward t z =
      (let y0 = (if c z then (snd z / (1 + min_radius t) - 1) * (1 - Ar t) + 1
                 else ((fst z - snd z - dr t + 1) / dr t)\<^sup>2 * Ar t);
           y1 = (if c z then (fst z - min_radius t) / dr t
                 else (min_radius t - snd z + 1) / (fst z - snd z - dr t + 1))
       in (ln y0 - ln (1 - y0), ln y1 - ln (1 - y1)))" for z
    by (simp add: RadiusImpact_forward_def Let_def c_def)
  show ?thesis
    by (simp add: val batch point Let_def o_def)
qed

text \<open>
  C6 (where the program breaks it). On an \<open>int64\<close> batch the two paths differ. With
  bounds \<open>1\<close> and \<open>3\<close> (\<open>dr = 2\<close>, \<open>Ar = 1/3\<close>) and the batch \<open>x = [[2], [1]]\<close>, that
  is \<open>(p, b) = (2, 1)\<close>, the graph path takes the logit of \<open>r11 = 2/3\<close> and
  \<open>r21 = 1/2\<close>. The numeric path stores the same two numbers into an integer array, so it
  stores \<open>0\<close> and \<open>0\<close>, and takes the logit of \<open>0\<close>, which is \<open>log 0 - log 1\<close>: minus
  infinity in the program, where the graph path gives \<open>log 2\<close> and \<open>0\<close>.
\<close>

theorem RadiusImpact_forward_val_int64_truncates:
  "RadiusImpact_forward_val int64 \<lparr>min_radius = 1, max_radius = 3, dr = 2, Ar = 1 / 3\<rparr>
       ([j0], [j1]) ([2], [1])
     = Some ([ln 0 - ln (1 - 0)], [ln 0 - ln (1 - 0)])
   \<and> RadiusImpact_forward_batch \<lparr>min_radius = 1, max_radius = 3, dr = 2, Ar = 1 / 3\<rparr>
       ([2], [1])
     = ([ln (2 / 3) - ln (1 - 2 / 3)], [ln (1 / 2) - ln (1 - 1 / 2)])
   \<and> RadiusImpact_forward_val int64 \<lparr>min_radius = 1, max_radius = 3, dr = 2, Ar = 1 / 3\<rparr>
       ([j0], [j1]) ([2], [1])
     \<noteq> Some (RadiusImpact_forward_batch \<lparr>min_radius = 1, max_radius = 3, dr = 2, Ar = 1 / 3\<rparr>
         ([2], [1]))"
proof -
  let ?t = "\<lparr>min_radius = 1, max_radius = 3, dr = 2, Ar = 1 / 3\<rparr>"
  have tr: "astype int64 (2 / 3) = 0" "astype int64 (1 / 2) = 0"
    by (simp_all add: astype_def)
  have r11: "((1 :: real) / (1 + 1) - 1) * (1 - 1 / 3) + 1 = 2 / 3"
    by simp
  have val: "RadiusImpact_forward_val int64 ?t ([j0], [j1]) ([2], [1])
      = Some ([ln 0 - ln (1 - 0)], [ln 0 - ln (1 - 0)])"
    by (simp add: RadiusImpact_forward_val_def Let_def elementwise_def r11 tr)
  have batch: "RadiusImpact_forward_batch ?t ([2], [1])
      = ([ln (2 / 3) - ln (1 - 2 / 3)], [ln (1 / 2) - ln (1 - 1 / 2)])"
    by (simp add: RadiusImpact_forward_batch_def RadiusImpact_forward_def Let_def)
  have "ln (2 / 3 :: real) - ln (1 - 2 / 3) = ln ((2 / 3) / (1 / 3))"
    by (simp add: ln_divide_pos)
  then have "ln (2 / 3 :: real) - ln (1 - 2 / 3) = ln 2"
    by simp
  moreover have "0 < ln (2 :: real)"
    by simp
  ultimately have "ln (2 / 3 :: real) - ln (1 - 2 / 3) \<noteq> ln 0 - ln (1 - 0)"
    by simp
  then show ?thesis
    unfolding val batch by simp
qed

section \<open>The logistic Jacobian\<close>

lemma sigmoid_has_derivative:
  "(sigmoid has_real_derivative sigmoid y * (1 - sigmoid y)) (at y)"
proof -
  have pos: "0 < 1 + exp (- y)" by (simp add: add_pos_pos)
  have "((\<lambda>z. 1 / (1 + exp (- z))) has_real_derivative
          exp (- y) / (1 + exp (- y))\<^sup>2) (at y)"
    using pos by (auto intro!: derivative_eq_intros simp: power2_eq_square)
  moreover have "exp (- y) / (1 + exp (- y))\<^sup>2 = sigmoid y * (1 - sigmoid y)"
    using pos by (simp add: sigmoid_def power2_eq_square field_simps)
  moreover have "sigmoid = (\<lambda>z. 1 / (1 + exp (- z)))"
    by (rule ext) (simp add: sigmoid_def)
  ultimately show ?thesis by simp
qed

lemma gradient_eq:
  assumes "(f has_real_derivative D) (at y)"
  shows "gradient f y = D"
  unfolding gradient_def
  using assms by (rule the_equality) (rule DERIV_unique [OF _ assms])

lemma sigmoid_slope_pos: "0 < sigmoid y * (1 - sigmoid y)"
  using sigmoid_pos [of y] sigmoid_less_one [of y] by simp

lemma logistic_jacobian:
  "- 2 * softplus (- y) - y = ln (sigmoid y * (1 - sigmoid y))"
proof -
  have pos: "0 < 1 + exp (- y)" by (simp add: add_pos_pos)
  have "sigmoid y * (1 - sigmoid y) = exp (- y) / ((1 + exp (- y)) * (1 + exp (- y)))"
    using pos by (simp add: sigmoid_def field_simps)
  also have "ln \<dots> = ln (exp (- y)) - ln ((1 + exp (- y)) * (1 + exp (- y)))"
    using pos by (intro ln_divide_pos) simp_all
  also have "\<dots> = - y - (ln (1 + exp (- y)) + ln (1 + exp (- y)))"
    using pos by (simp add: ln_mult_pos)
  finally show ?thesis
    by (simp add: softplus_def)
qed

lemma sigmoid_gt_half: "1 / 2 < sigmoid y \<longleftrightarrow> 0 < y"
proof -
  have pos: "0 < 1 + exp (- y)" by (simp add: add_pos_pos)
  have "1 / 2 < sigmoid y \<longleftrightarrow> exp (- y) < 1"
    using pos by (simp add: sigmoid_def field_simps)
  then show ?thesis by simp
qed

lemma sigmoid_lt_half: "sigmoid y < 1 / 2 \<longleftrightarrow> y < 0"
proof -
  have pos: "0 < 1 + exp (- y)" by (simp add: add_pos_pos)
  have "sigmoid y < 1 / 2 \<longleftrightarrow> 1 < exp (- y)"
    using pos by (simp add: sigmoid_def field_simps)
  then show ?thesis by simp
qed

section \<open>\<open>AbsoluteValueTransform\<close>: \<open>jacobian_det\<close> and the derivative of \<open>backward\<close>\<close>

lemma AbsoluteValue_backward_has_derivative_pos:
  assumes "0 < y"
  shows "(AbsoluteValue_backward has_real_derivative 2 * (sigmoid y * (1 - sigmoid y))) (at y)"
proof (rule has_field_derivative_transform_within_open [where S = "{0<..}"])
  show "((\<lambda>z. 2 * sigmoid z - 1) has_real_derivative 2 * (sigmoid y * (1 - sigmoid y))) (at y)"
    by (auto intro!: derivative_eq_intros sigmoid_has_derivative)
  show "open {0::real<..}" by simp
  show "y \<in> {0<..}" using assms by simp
  fix z :: real
  assume "z \<in> {0<..}"
  then have "1 / 2 < sigmoid z" using sigmoid_gt_half [of z] by simp
  then show "2 * sigmoid z - 1 = AbsoluteValue_backward z"
    by (simp add: AbsoluteValue_backward_def)
qed

lemma AbsoluteValue_backward_has_derivative_neg:
  assumes "y < 0"
  shows "(AbsoluteValue_backward has_real_derivative - (2 * (sigmoid y * (1 - sigmoid y)))) (at y)"
proof (rule has_field_derivative_transform_within_open [where S = "{..<0}"])
  show "((\<lambda>z. 1 - 2 * sigmoid z) has_real_derivative - (2 * (sigmoid y * (1 - sigmoid y)))) (at y)"
    by (auto intro!: derivative_eq_intros sigmoid_has_derivative)
  show "open {..<0::real}" by simp
  show "y \<in> {..<0}" using assms by simp
  fix z :: real
  assume "z \<in> {..<0}"
  then have "sigmoid z < 1 / 2" using sigmoid_lt_half [of z] by simp
  then show "1 - 2 * sigmoid z = AbsoluteValue_backward z"
    by (simp add: AbsoluteValue_backward_def)
qed

lemma AbsoluteValue_backward_even: "AbsoluteValue_backward (- y) = AbsoluteValue_backward y"
proof -
  have pos: "0 < 1 + exp y" "0 < 1 + exp (- y)" by (simp_all add: add_pos_pos)
  have "sigmoid (- y) = 1 - sigmoid y"
    using pos by (simp add: sigmoid_def exp_minus field_simps)
  then show ?thesis
    by (simp add: AbsoluteValue_backward_def)
qed

lemma AbsoluteValue_backward_no_derivative_at_0:
  "\<not> (AbsoluteValue_backward has_real_derivative D) (at 0)"
proof
  assume D: "(AbsoluteValue_backward has_real_derivative D) (at 0)"
  have um: "((\<lambda>z::real. - z) has_real_derivative - 1) (at 0)"
    by (auto intro!: derivative_eq_intros)
  have "((\<lambda>z. AbsoluteValue_backward (- z)) has_real_derivative D * (- 1)) (at 0)"
    by (rule DERIV_chain' [OF um]) (simp add: D)
  then have "(AbsoluteValue_backward has_real_derivative - D) (at 0)"
    by (simp add: AbsoluteValue_backward_even)
  then have "D = - D"
    by (rule DERIV_unique [OF D])
  then have zero: "D = 0"
    by linarith
  have lim: "((\<lambda>z. (AbsoluteValue_backward z - AbsoluteValue_backward 0) / (z - 0)) \<longlongrightarrow> 0)
      (at_right 0)"
    using D zero by (simp add: has_field_derivative_iff filterlim_at_split)
  have "((\<lambda>z. 2 * sigmoid z - 1) has_real_derivative 2 * (sigmoid 0 * (1 - sigmoid 0))) (at 0)"
    by (auto intro!: derivative_eq_intros sigmoid_has_derivative)
  then have lim2: "((\<lambda>z. ((2 * sigmoid z - 1) - (2 * sigmoid 0 - 1)) / (z - 0)) \<longlongrightarrow> 1 / 2)
      (at_right 0)"
    by (simp add: has_field_derivative_iff filterlim_at_split sigmoid_zero)
  have eq: "((2 * sigmoid z - 1) - (2 * sigmoid 0 - 1)) / (z - 0)
      = (AbsoluteValue_backward z - AbsoluteValue_backward 0) / (z - 0)" if "0 < z" for z
  proof -
    have "1 / 2 < sigmoid z" using sigmoid_gt_half [of z] that by simp
    then show ?thesis
      by (simp add: AbsoluteValue_backward_def sigmoid_zero)
  qed
  have ev: "eventually (\<lambda>z. ((2 * sigmoid z - 1) - (2 * sigmoid 0 - 1)) / (z - 0)
      = (AbsoluteValue_backward z - AbsoluteValue_backward 0) / (z - 0)) (at_right 0)"
    unfolding eventually_at_right_field using eq by (intro exI [of _ 1]) simp
  have "((\<lambda>z. (AbsoluteValue_backward z - AbsoluteValue_backward 0) / (z - 0)) \<longlongrightarrow> 1 / 2)
      (at_right 0)"
    using lim2 ev by (rule Lim_transform_eventually)
  from tendsto_unique [OF _ this lim] show False by simp
qed

lemma AbsoluteValue_backward_derivative_abs:
  assumes "(AbsoluteValue_backward has_real_derivative D) (at y)"
  shows "y \<noteq> 0" and "\<bar>D\<bar> = 2 * (sigmoid y * (1 - sigmoid y))"
proof -
  show nz: "y \<noteq> 0"
    using assms AbsoluteValue_backward_no_derivative_at_0 by blast
  show "\<bar>D\<bar> = 2 * (sigmoid y * (1 - sigmoid y))"
  proof (cases "0 < y")
    case True
    have "D = 2 * (sigmoid y * (1 - sigmoid y))"
      by (rule DERIV_unique [OF assms AbsoluteValue_backward_has_derivative_pos [OF True]])
    then show ?thesis
      using sigmoid_slope_pos [of y] by simp
  next
    case False
    with nz have neg: "y < 0" by simp
    have "D = - (2 * (sigmoid y * (1 - sigmoid y)))"
      by (rule DERIV_unique [OF assms AbsoluteValue_backward_has_derivative_neg [OF neg]])
    then show ?thesis
      using sigmoid_slope_pos [of y] by simp
  qed
qed

text \<open>
  C4 (as the program behaves). For every real \<open>y\<close>, \<open>jacobian_det y\<close> is the logarithm
  of the derivative of \<open>sigmoid\<close> at \<open>y\<close>. \<open>backward\<close> has a derivative at every
  \<open>y \<noteq> 0\<close> and only there, and wherever it has a derivative \<open>D\<close>,
  \<open>jacobian_det y = ln \<bar>D\<bar> - ln 2\<close>: the value falls short of the logarithm of the
  absolute derivative of \<open>y \<mapsto> \<bar>2 * sigmoid y - 1\<bar>\<close> by the constant \<open>ln 2\<close>.
\<close>

theorem AbsoluteValue_jacobian_det_log_derivative:
  "AbsoluteValue_jacobian_det y = ln (sigmoid y * (1 - sigmoid y))
   \<and> (y \<noteq> 0 \<longrightarrow>
        (AbsoluteValue_backward has_real_derivative sgn y * (2 * (sigmoid y * (1 - sigmoid y))))
          (at y))
   \<and> ((AbsoluteValue_backward has_real_derivative D) (at y) \<longrightarrow>
        y \<noteq> 0 \<and> AbsoluteValue_jacobian_det y = ln \<bar>D\<bar> - ln 2)"
proof (intro conjI impI)
  show jac: "AbsoluteValue_jacobian_det y = ln (sigmoid y * (1 - sigmoid y))"
    using logistic_jacobian [of y] by (simp add: AbsoluteValue_jacobian_det_def)
  show "(AbsoluteValue_backward has_real_derivative sgn y * (2 * (sigmoid y * (1 - sigmoid y))))
      (at y)" if "y \<noteq> 0"
  proof (cases "0 < y")
    case True
    then show ?thesis
      using AbsoluteValue_backward_has_derivative_pos [OF True] by simp
  next
    case False
    with that have neg: "y < 0" by simp
    then show ?thesis
      using AbsoluteValue_backward_has_derivative_neg [OF neg] by simp
  qed
  assume D: "(AbsoluteValue_backward has_real_derivative D) (at y)"
  show "y \<noteq> 0"
    by (rule AbsoluteValue_backward_derivative_abs(1) [OF D])
  have "ln \<bar>D\<bar> = ln 2 + ln (sigmoid y * (1 - sigmoid y))"
    using sigmoid_slope_pos [of y]
    by (simp add: AbsoluteValue_backward_derivative_abs(2) [OF D] ln_mult_pos)
  then show "AbsoluteValue_jacobian_det y = ln \<bar>D\<bar> - ln 2"
    by (simp add: jac)
qed

theorem AbsoluteValue_jacobian_det_log_derivative_witness:
  "(1::real) \<noteq> 0
   \<and> (AbsoluteValue_backward has_real_derivative 2 * (sigmoid 1 * (1 - sigmoid 1))) (at 1)
   \<and> AbsoluteValue_jacobian_det 1 = ln \<bar>2 * (sigmoid 1 * (1 - sigmoid 1))\<bar> - ln 2"
proof -
  have nz: "(1::real) \<noteq> 0" by simp
  note T = AbsoluteValue_jacobian_det_log_derivative [of 1 "2 * (sigmoid 1 * (1 - sigmoid 1))"]
  from T nz have D: "(AbsoluteValue_backward has_real_derivative 2 * (sigmoid 1 * (1 - sigmoid 1))) (at 1)"
    by simp
  with T have "AbsoluteValue_jacobian_det 1 = ln \<bar>2 * (sigmoid 1 * (1 - sigmoid 1))\<bar> - ln 2"
    by blast
  with nz D show ?thesis by blast
qed

text \<open>
  At \<open>y = 1\<close> the derivative of \<open>backward\<close> is \<open>2 * sigmoid 1 * (1 - sigmoid 1)\<close>, and
  \<open>jacobian_det 1\<close> is not the logarithm of its absolute value.
\<close>

theorem AbsoluteValue_jacobian_det_off_by_ln2:
  "(AbsoluteValue_backward has_real_derivative 2 * (sigmoid 1 * (1 - sigmoid 1))) (at 1)
   \<and> AbsoluteValue_jacobian_det 1 \<noteq> ln \<bar>2 * (sigmoid 1 * (1 - sigmoid 1))\<bar>"
proof
  show "(AbsoluteValue_backward has_real_derivative 2 * (sigmoid 1 * (1 - sigmoid 1))) (at 1)"
    by (rule AbsoluteValue_backward_has_derivative_pos) simp
  have "ln \<bar>2 * (sigmoid 1 * (1 - sigmoid 1))\<bar> = ln 2 + ln (sigmoid 1 * (1 - sigmoid 1))"
    using sigmoid_slope_pos [of 1] by (simp add: ln_mult_pos)
  moreover have "AbsoluteValue_jacobian_det 1 = ln (sigmoid 1 * (1 - sigmoid 1))"
    using logistic_jacobian [of 1] by (simp add: AbsoluteValue_jacobian_det_def)
  moreover have "0 < ln (2::real)" by simp
  ultimately show "AbsoluteValue_jacobian_det 1 \<noteq> ln \<bar>2 * (sigmoid 1 * (1 - sigmoid 1))\<bar>"
    by linarith
qed

section \<open>\<open>ImpactParameterTransform\<close>: the rescaled logistic transform\<close>

lemma LogOdds_jacobian_det_eq:
  "LogOdds_jacobian_det y = ln (sigmoid y * (1 - sigmoid y))"
proof -
  have "(LogOdds_backward has_real_derivative sigmoid y * (1 - sigmoid y)) (at y)"
    using sigmoid_has_derivative [of y]
    by (simp add: LogOdds_backward_def [abs_def])
  then have "gradient LogOdds_backward y = sigmoid y * (1 - sigmoid y)"
    by (rule gradient_eq)
  then show ?thesis
    using sigmoid_slope_pos [of y]
    by (simp add: LogOdds_jacobian_det_def Elemwise_jacobian_det_def)
qed

lemma ImpactParameter_backward_gradient:
  "gradient (ImpactParameter_backward t) y = sigmoid y * (1 - sigmoid y) * one_plus_ror t"
proof -
  have "((\<lambda>x. sigmoid x * one_plus_ror t) has_real_derivative
          sigmoid y * (1 - sigmoid y) * one_plus_ror t) (at y)"
    by (auto intro!: derivative_eq_intros sigmoid_has_derivative)
  then have "(ImpactParameter_backward t has_real_derivative
          sigmoid y * (1 - sigmoid y) * one_plus_ror t) (at y)"
    by (simp add: ImpactParameter_backward_def [abs_def] LogOdds_backward_def)
  then show ?thesis
    by (rule gradient_eq)
qed

lemma ImpactParameter_jacobian_det_eq:
  assumes "0 < one_plus_ror t"
  shows "ImpactParameter_jacobian_det t y = ln (sigmoid y * (1 - sigmoid y))"
proof -
  have "0 < sigmoid y * (1 - sigmoid y) * one_plus_ror t"
    using sigmoid_slope_pos [of y] assms by (rule mult_pos_pos)
  then have "\<bar>sigmoid y * (1 - sigmoid y) * one_plus_ror t\<bar>
      = sigmoid y * (1 - sigmoid y) * one_plus_ror t"
    by (rule abs_of_pos)
  moreover have "ln (sigmoid y * (1 - sigmoid y) * one_plus_ror t)
      = ln (sigmoid y * (1 - sigmoid y)) + ln (one_plus_ror t)"
    using sigmoid_slope_pos [of y] assms by (rule ln_mult_pos)
  ultimately have "ln \<bar>sigmoid y * (1 - sigmoid y) * one_plus_ror t\<bar>
      = ln (sigmoid y * (1 - sigmoid y)) + ln (one_plus_ror t)"
    by simp
  then show ?thesis
    by (simp add: ImpactParameter_jacobian_det_def Elemwise_jacobian_det_def
        ImpactParameter_backward_gradient)
qed

text \<open>
  C7 (as the program behaves). For a transform constructed with \<open>ror\<close>: \<open>backward y\<close> is
  the \<open>LogOdds\<close> \<open>backward\<close> of \<open>y\<close> times \<open>1 + ror\<close>; \<open>forward x\<close> is the
  \<open>LogOdds\<close> \<open>forward\<close> of \<open>x / (1 + ror)\<close>; \<open>jacobian_det y\<close> is the inherited
  \<open>jacobian_det\<close>, which differentiates the \<open>backward\<close> of this transform, minus
  \<open>ln (1 + ror)\<close>. The inherited term already holds \<open>+ ln (1 + ror)\<close>, so for
  \<open>0 < 1 + ror\<close> the result is the \<open>jacobian_det\<close> of a plain \<open>LogOdds\<close> at \<open>y\<close>,
  with no term in \<open>ror\<close> left.
\<close>

theorem ImpactParameter_rescales_LogOdds:
  assumes "ImpactParameter_init ror = Inr t"
  shows "ImpactParameter_backward t y = LogOdds_backward y * (1 + ror)
    \<and> ImpactParameter_forward t x = LogOdds_forward (x / (1 + ror))
    \<and> ImpactParameter_jacobian_det t y
        = Elemwise_jacobian_det (ImpactParameter_backward t) y - ln (1 + ror)
    \<and> (0 < 1 + ror \<longrightarrow> ImpactParameter_jacobian_det t y = LogOdds_jacobian_det y)"
proof -
  have t: "one_plus_ror t = 1 + ror"
    using assms by (auto simp: ImpactParameter_init_def)
  have "ImpactParameter_jacobian_det t y = LogOdds_jacobian_det y" if "0 < 1 + ror"
    using that by (simp add: ImpactParameter_jacobian_det_eq t LogOdds_jacobian_det_eq)
  then show ?thesis
    by (simp add: ImpactParameter_backward_def ImpactParameter_forward_def
        ImpactParameter_jacobian_det_def t)
qed

theorem ImpactParameter_rescales_LogOdds_witness:
  "ImpactParameter_init 1 = Inr \<lparr>one_plus_ror = 2\<rparr> \<and> (0::real) < 1 + 1
   \<and> ImpactParameter_backward \<lparr>one_plus_ror = 2\<rparr> 0 = LogOdds_backward 0 * (1 + 1)
   \<and> ImpactParameter_forward \<lparr>one_plus_ror = 2\<rparr> 1 = LogOdds_forward (1 / (1 + 1))
   \<and> ImpactParameter_jacobian_det \<lparr>one_plus_ror = 2\<rparr> 0 = LogOdds_jacobian_det 0"
proof -
  have i: "ImpactParameter_init 1 = Inr \<lparr>one_plus_ror = 2\<rparr>"
    by (simp add: ImpactParameter_init_def)
  have pos: "(0::real) < 1 + 1" by simp
  from ImpactParameter_rescales_LogOdds [OF i, of 0 1] i pos show ?thesis
    by blast
qed

text \<open>
  With \<open>ror = 1\<close> and \<open>y = 0\<close>: \<open>jacobian_det\<close> is \<open>ln (1/4)\<close>, the value of a plain
  \<open>LogOdds\<close>, and not \<open>ln (1/4) - ln 2 = ln (1/8)\<close>.
\<close>

theorem ImpactParameter_jacobian_det_no_net_shift:
  "ImpactParameter_init 1 = Inr \<lparr>one_plus_ror = 2\<rparr>
   \<and> ImpactParameter_jacobian_det \<lparr>one_plus_ror = 2\<rparr> 0 = ln (1 / 4)
   \<and> LogOdds_jacobian_det 0 - ln (1 + 1) = ln (1 / 8)
   \<and> ImpactParameter_jacobian_det \<lparr>one_plus_ror = 2\<rparr> 0 \<noteq> LogOdds_jacobian_det 0 - ln (1 + 1)"
proof -
  have i: "ImpactParameter_init 1 = Inr \<lparr>one_plus_ror = 2\<rparr>"
    by (simp add: ImpactParameter_init_def)
  have a: "ImpactParameter_jacobian_det \<lparr>one_plus_ror = 2\<rparr> 0 = ln (1 / 4)"
    by (simp add: ImpactParameter_jacobian_det_eq sigmoid_zero)
  have l: "LogOdds_jacobian_det 0 = ln (1 / 4)"
    by (simp add: LogOdds_jacobian_det_eq sigmoid_zero)
  have e: "(1 / 4 :: real) / 2 = 1 / 8" by simp
  have "ln ((1 / 4 :: real) / 2) = ln (1 / 4) - ln 2"
    by (rule ln_divide_pos) simp_all
  then have d: "ln (1 / 4 :: real) - ln 2 = ln (1 / 8)"
    by (simp only: e)
  have b: "LogOdds_jacobian_det 0 - ln (1 + 1) = ln (1 / 8)"
    by (simp only: l d one_add_one)
  have "ln (1 / 8 :: real) < ln (1 / 4)"
    by (subst ln_less_cancel_iff) simp_all
  with i a b show ?thesis by simp
qed

section \<open>Round trips: \<open>backward\<close> after \<open>forward\<close>\<close>

lemma sigmoid_logit:
  assumes "0 < r" and "r < 1"
  shows "sigmoid (ln r - ln (1 - r)) = r"
proof -
  have "exp (- (ln r - ln (1 - r))) = exp (ln (1 - r)) / exp (ln r)"
    by (simp add: exp_diff)
  also have "\<dots> = (1 - r) / r"
    using assms by simp
  finally have "sigmoid (ln r - ln (1 - r)) = 1 / (1 + (1 - r) / r)"
    by (simp add: sigmoid_def)
  also have "\<dots> = r"
    using assms by (simp add: field_simps)
  finally show ?thesis .
qed

lemma arctan2_sin_cos:
  assumes "- pi < x" and "x \<le> pi"
  shows "arctan2 (sin x) (cos x) = x"
proof -
  consider "- (pi / 2) < x" "x < pi / 2" | "x = pi / 2" | "x = - (pi / 2)"
    | "pi / 2 < x" | "x < - (pi / 2)"
    by linarith
  then show ?thesis
  proof cases
    case 1
    then have "0 < cos x" by (rule cos_gt_zero_pi)
    moreover have "arctan (sin x / cos x) = x"
      using arctan_tan [OF 1] by (simp add: tan_def)
    ultimately show ?thesis by (simp add: arctan2_def)
  next
    case 2
    show ?thesis unfolding 2 by (simp add: arctan2_def)
  next
    case 3
    show ?thesis unfolding 3 by (simp add: arctan2_def)
  next
    case 4
    have c: "0 < cos (x - pi)"
      using 4 assms by (intro cos_gt_zero_pi) simp_all
    then have neg: "cos x < 0" by simp
    have "0 \<le> sin x"
      using 4 assms pi_gt_zero by (intro sin_ge_zero) linarith+
    moreover have "arctan (tan (x - pi)) = x - pi"
      using 4 assms by (intro arctan_tan) simp_all
    then have "arctan (sin x / cos x) = x - pi"
      by (simp add: tan_def)
    ultimately show ?thesis
      using neg by (simp add: arctan2_def)
  next
    case 5
    have c: "0 < cos (x + pi)"
      using 5 assms by (intro cos_gt_zero_pi) simp_all
    then have neg: "cos x < 0" by simp
    have "0 < sin (x + pi)"
      using 5 assms pi_gt_zero by (intro sin_gt_zero) linarith+
    then have "sin x < 0" by simp
    moreover have "arctan (tan (x + pi)) = x + pi"
      using 5 assms by (intro arctan_tan) simp_all
    then have "arctan (sin x / cos x) = x + pi"
      by (simp add: tan_def)
    ultimately show ?thesis
      using neg by (simp add: arctan2_def)
  qed
qed

lemma AbsoluteValue_roundtrip:
  assumes "- 1 < x" and "x < 1"
  shows "AbsoluteValue_backward (AbsoluteValue_forward x) = \<bar>x\<bar>"
proof -
  have q: "0 < (x + 1) / 2" "(x + 1) / 2 < 1" using assms by simp_all
  have "sigmoid (ln ((x + 1) / 2) - ln (1 - (x + 1) / 2)) = (x + 1) / 2"
    by (rule sigmoid_logit [OF q])
  then show ?thesis
    by (simp add: AbsoluteValue_backward_def AbsoluteValue_forward_def Let_def)
qed

lemma UnitVector_roundtrip:
  assumes "sum_list (map (\<lambda>v. v ^ 2) x) = 1"
  shows "UnitVector_backward (UnitVector_forward x) = x"
  using assms by (simp add: UnitVector_backward_def UnitVector_forward_def Let_def)

lemma UnitDisk_roundtrip:
  assumes "- 1 < fst x" and "fst x < 1"
  shows "UnitDisk_backward (UnitDisk_forward x) = x"
proof -
  have "\<bar>fst x\<bar> < 1"
    using assms by (simp add: abs_less_iff)
  then have "(fst x)\<^sup>2 < 1"
    by (simp add: abs_square_less_1)
  then have "0 < sqrt (1 - (fst x)\<^sup>2)" by simp
  then show ?thesis
    by (simp add: UnitDisk_backward_def UnitDisk_forward_def prod_eq_iff)
qed

lemma Angle_roundtrip:
  assumes "- pi < x" and "x \<le> pi"
  shows "Angle_backward (Angle_forward x) = x"
  using arctan2_sin_cos [OF assms] by (simp add: Angle_backward_def Angle_forward_def)

lemma Periodic_roundtrip:
  assumes "Periodic_init lower upper = Inr t" and "lower < upper"
    and "lower < x" and "x \<le> upper"
  shows "Periodic_backward t (Periodic_forward t x) = x"
proof -
  have f: "mid t = (lower + upper) / 2" "delta t = (upper - lower) / 2 / pi"
    using assms(1) by (auto simp: Periodic_init_def)
  have d: "0 < delta t" using assms(2) by (simp add: f)
  let ?a = "(x - mid t) / delta t"
  have "- pi * delta t < x - mid t" "x - mid t \<le> pi * delta t"
    using assms by (simp_all add: f field_simps)
  then have a: "- pi < ?a" "?a \<le> pi"
    using d by (simp_all add: field_simps)
  have "delta t * ?a = x - mid t" using d by simp
  then show ?thesis
    using arctan2_sin_cos [OF a] by (simp add: Periodic_backward_def Periodic_forward_def Let_def)
qed

lemma QuadLimbDark_roundtrip:
  assumes "0 < fst x" and "fst x + snd x < 1" and "0 < fst x + 2 * snd x"
  shows "QuadLimbDark_backward (QuadLimbDark_forward x) = x"
proof -
  define S where "S = fst x + snd x"
  have S: "0 < S" "S < 1" using assms by (simp_all add: S_def)
  have "\<bar>S\<bar> < 1" using S by simp
  then have q0: "0 < S\<^sup>2" "S\<^sup>2 < 1"
    using S by (simp_all add: abs_square_less_1)
  define q1 where "q1 = fst x / 2 / S"
  have q1: "0 < q1" "q1 < 1"
    using S assms by (simp_all add: q1_def S_def field_simps)
  have fw: "QuadLimbDark_forward x = (ln (S\<^sup>2) - ln (1 - S\<^sup>2), ln q1 - ln (1 - q1))"
    by (simp add: QuadLimbDark_forward_def Let_def S_def q1_def)
  have ab: "\<bar>S\<bar> = S" using S by simp
  have "S * (2 * q1) = fst x" "S * (1 - 2 * q1) = snd x"
    using S by (simp_all add: q1_def S_def field_simps)
  then show ?thesis
    by (simp add: fw QuadLimbDark_backward_def Let_def sigmoid_logit [OF q0]
        sigmoid_logit [OF q1] ab prod_eq_iff)
qed

lemma ImpactParameter_roundtrip:
  assumes "ImpactParameter_init ror = Inr t" and "0 < x" and "x < 1 + ror"
  shows "ImpactParameter_backward t (ImpactParameter_forward t x) = x"
proof -
  have t: "one_plus_ror t = 1 + ror"
    using assms(1) by (auto simp: ImpactParameter_init_def)
  have pos: "0 < 1 + ror" using assms by simp
  define r where "r = x / (1 + ror)"
  have r: "0 < r" "r < 1" using assms pos by (simp_all add: r_def)
  have "ln (r / (1 - r)) = ln r - ln (1 - r)"
    using r by (intro ln_divide_pos) simp_all
  then have "sigmoid (ln (r / (1 - r))) = r"
    using sigmoid_logit [OF r] by simp
  moreover have "r * (1 + ror) = x" using pos by (simp add: r_def)
  ultimately show ?thesis
    by (simp add: ImpactParameter_backward_def ImpactParameter_forward_def
        LogOdds_backward_def LogOdds_forward_def t r_def)
qed

lemma RadiusImpact_forward_switch:
  "RadiusImpact_forward t x =
     (let r = (if snd x \<le> 1 then RadiusImpact_forward_A t (fst x) (snd x)
               else RadiusImpact_forward_B t (fst x) (snd x))
      in (ln (fst r) - ln (1 - fst r), ln (snd r) - ln (1 - snd r)))"
  by (simp add: RadiusImpact_forward_def RadiusImpact_forward_A_def
      RadiusImpact_forward_B_def Let_def)

lemma forward_A_range:
  assumes t: "RadiusImpact_init pl pu = Inr t" "0 \<le> pl" "pl < pu"
    and p: "pl < p" "p < pu" and b: "0 < b" "b < 1 + pl"
  shows "Ar t < fst (RadiusImpact_forward_A t p b)"
    and "fst (RadiusImpact_forward_A t p b) < 1"
    and "0 < snd (RadiusImpact_forward_A t p b)"
    and "snd (RadiusImpact_forward_A t p b) < 1"
    and "RadiusImpact_backward_A t (fst (RadiusImpact_forward_A t p b))
           (snd (RadiusImpact_forward_A t p b)) = (p, b)"
proof -
  note f = RadiusImpact_init_fields [OF t(1)]
  note A = RadiusImpact_Ar_bounds [OF t]
  define u where "u = b / (1 + pl)"
  have one: "0 < 1 - Ar t" and pl1: "0 < 1 + pl" using A t by simp_all
  have u: "0 < u" "u < 1" using b pl1 by (simp_all add: u_def)
  have fstA: "fst (RadiusImpact_forward_A t p b) = (u - 1) * (1 - Ar t) + 1"
    by (simp add: RadiusImpact_forward_A_def f u_def)
  have sndA: "snd (RadiusImpact_forward_A t p b) = (p - pl) / (pu - pl)"
    by (simp add: RadiusImpact_forward_A_def f)
  have "0 < u * (1 - Ar t)" using u one by simp
  then show "Ar t < fst (RadiusImpact_forward_A t p b)"
    by (simp add: fstA algebra_simps)
  have "(1 - u) * (1 - Ar t) > 0" using u one by simp
  then show "fst (RadiusImpact_forward_A t p b) < 1"
    by (simp add: fstA algebra_simps)
  show "0 < snd (RadiusImpact_forward_A t p b)"
    using p t by (simp add: sndA)
  show "snd (RadiusImpact_forward_A t p b) < 1"
    using p t by (simp add: sndA)
  have "((u - 1) * (1 - Ar t) + 1 - 1) / (1 - Ar t) = u - 1"
    using one by simp
  then have "(1 + pl) * (1 + ((u - 1) * (1 - Ar t) + 1 - 1) / (1 - Ar t)) = b"
    using pl1 by (simp add: u_def)
  moreover have "pl + (p - pl) / (pu - pl) * (pu - pl) = p"
    using t by simp
  ultimately show "RadiusImpact_backward_A t (fst (RadiusImpact_forward_A t p b))
           (snd (RadiusImpact_forward_A t p b)) = (p, b)"
    unfolding fstA sndA by (simp add: RadiusImpact_backward_A_def f)
qed

lemma forward_B_range:
  assumes t: "RadiusImpact_init pl pu = Inr t" "0 \<le> pl" "pl < pu"
    and p: "p < pu" and b: "1 + pl < b" "b < 1 + p"
  shows "p - b - dr t + 1 < 0"
    and "0 < fst (RadiusImpact_forward_B t p b)"
    and "fst (RadiusImpact_forward_B t p b) < Ar t"
    and "0 < snd (RadiusImpact_forward_B t p b)"
    and "snd (RadiusImpact_forward_B t p b) < 1"
    and "RadiusImpact_backward_B t (fst (RadiusImpact_forward_B t p b))
           (snd (RadiusImpact_forward_B t p b)) = (p, b)"
proof -
  note f = RadiusImpact_init_fields [OF t(1)]
  note A = RadiusImpact_Ar_bounds [OF t]
  define d where "d = pu - pl"
  define a where "a = p - b - d + 1"
  have d: "0 < d" using t by (simp add: d_def)
  have a: "a < 0" "- d < a" using p b by (simp_all add: a_def d_def)
  show "p - b - dr t + 1 < 0" using a by (simp add: f a_def d_def)
  define s where "s = - a / d"
  have s: "0 < s" "s < 1" using a d by (simp_all add: s_def field_simps)
  have "s = - (a / d)" by (simp add: s_def)
  then have "s\<^sup>2 = (a / d)\<^sup>2" by (simp only: power2_minus)
  then have s2eq: "((p - b - (pu - pl) + 1) / (pu - pl))\<^sup>2 = s\<^sup>2"
    by (simp only: a_def d_def)
  have fstB: "fst (RadiusImpact_forward_B t p b) = s\<^sup>2 * Ar t"
    by (simp add: RadiusImpact_forward_B_def f s2eq)
  have sndB: "snd (RadiusImpact_forward_B t p b) = (pl - b + 1) / a"
    by (simp add: RadiusImpact_forward_B_def f a_def d_def)
  have "\<bar>s\<bar> < 1" using s by simp
  then have s2: "0 < s\<^sup>2" "s\<^sup>2 < 1" using s by (simp_all add: abs_square_less_1)
  show "0 < fst (RadiusImpact_forward_B t p b)"
    using s2 A by (simp add: fstB)
  have "s\<^sup>2 * Ar t < 1 * Ar t"
    using s2 A by (intro mult_strict_right_mono) simp_all
  then show "fst (RadiusImpact_forward_B t p b) < Ar t"
    by (simp add: fstB)
  have num: "pl - b + 1 < 0" using b by simp
  show "0 < snd (RadiusImpact_forward_B t p b)"
    using num a by (simp add: sndB divide_neg_neg)
  have "a < pl - b + 1" using p by (simp add: a_def d_def)
  then show "snd (RadiusImpact_forward_B t p b) < 1"
    using a by (simp add: sndB field_simps)
  have ab: "\<bar>s\<bar> = s" and nz: "Ar t \<noteq> 0" using s A by simp_all
  have r: "a * ((pl - b + 1) / a) = pl - b + 1" using a by simp
  have "pu - d * s * (1 - (pl - b + 1) / a) = pu + a * (1 - (pl - b + 1) / a)"
    using d by (simp add: s_def)
  also have "\<dots> = pu + a - (pl - b + 1)"
    using r by (simp add: algebra_simps)
  also have "\<dots> = p" by (simp add: a_def d_def)
  finally have P: "pu - d * s * (1 - (pl - b + 1) / a) = p" .
  have "1 + pl + s * ((pl - b + 1) / a) * d = 1 + pl - a * ((pl - b + 1) / a)"
    using d by (simp add: s_def)
  also have "\<dots> = b" using r by simp
  finally have B: "1 + pl + s * ((pl - b + 1) / a) * d = b" .
  show "RadiusImpact_backward_B t (fst (RadiusImpact_forward_B t p b))
           (snd (RadiusImpact_forward_B t p b)) = (p, b)"
    unfolding fstB sndB using P B nz
    by (simp add: RadiusImpact_backward_B_def f(1,2,3) ab d_def)
qed

lemma RadiusImpact_backward_always_defined:
  assumes "RadiusImpact_init pl pu = Inr t" and "0 \<le> pl" and "pl < pu"
  shows "RadiusImpact_init_defined pl pu \<and> RadiusImpact_backward_defined t y"
  using RadiusImpact_Ar_bounds [OF assms] sigmoid_pos [of "fst y"]
  by (simp add: RadiusImpact_init_defined_def RadiusImpact_backward_defined_def)

lemma RadiusImpact_roundtrip:
  assumes t: "RadiusImpact_init pl pu = Inr t" "0 \<le> pl" "pl < pu"
    and p: "pl < p" "p < pu"
    and b: "(0 < b \<and> b \<le> 1 \<and> b < 1 + pl) \<or> (1 + pl < b \<and> b < 1 + p)"
  shows "RadiusImpact_forward_defined t (p, b)"
    and "RadiusImpact_backward t (RadiusImpact_forward t (p, b)) = (p, b)"
proof -
  note Ab = RadiusImpact_Ar_bounds [OF t]
  note f = RadiusImpact_init_fields [OF t(1)]
  from b consider (A) "0 < b" "b \<le> 1" "b < 1 + pl" | (B) "1 + pl < b" "b < 1 + p"
    by blast
  then have "RadiusImpact_forward_defined t (p, b)
    \<and> RadiusImpact_backward t (RadiusImpact_forward t (p, b)) = (p, b)"
  proof cases
    case A
    note R = forward_A_range [OF t p A(1) A(3)]
    let ?r1 = "fst (RadiusImpact_forward_A t p b)" and ?r2 = "snd (RadiusImpact_forward_A t p b)"
    have r1: "0 < ?r1" using R(1) Ab by linarith
    have fw: "RadiusImpact_forward t (p, b) = (ln ?r1 - ln (1 - ?r1), ln ?r2 - ln (1 - ?r2))"
      using A(2) by (simp add: RadiusImpact_forward_switch Let_def)
    have sg: "sigmoid (ln ?r1 - ln (1 - ?r1)) = ?r1" "sigmoid (ln ?r2 - ln (1 - ?r2)) = ?r2"
      using sigmoid_logit [OF r1 R(2)] sigmoid_logit [OF R(3) R(4)] by simp_all
    have "RadiusImpact_backward t (RadiusImpact_forward t (p, b)) = (p, b)"
      using R(1) R(5) by (simp add: fw RadiusImpact_backward_switch sg)
    moreover have "RadiusImpact_forward_defined t (p, b)"
      using A(2) r1 R(2,3,4) t Ab
      by (simp add: RadiusImpact_forward_defined_def in_unit_def f(1))
    ultimately show ?thesis by simp
  next
    case B
    note R = forward_B_range [OF t p(2) B]
    let ?r1 = "fst (RadiusImpact_forward_B t p b)" and ?r2 = "snd (RadiusImpact_forward_B t p b)"
    have gt: "\<not> b \<le> 1" using B t by simp
    have r1: "?r1 < 1" using R(3) Ab by linarith
    have fw: "RadiusImpact_forward t (p, b) = (ln ?r1 - ln (1 - ?r1), ln ?r2 - ln (1 - ?r2))"
      using gt by (simp add: RadiusImpact_forward_switch Let_def)
    have sg: "sigmoid (ln ?r1 - ln (1 - ?r1)) = ?r1" "sigmoid (ln ?r2 - ln (1 - ?r2)) = ?r2"
      using sigmoid_logit [OF R(2) r1] sigmoid_logit [OF R(4) R(5)] by simp_all
    have "RadiusImpact_backward t (RadiusImpact_forward t (p, b)) = (p, b)"
      using R(3) R(6) by (simp add: fw RadiusImpact_backward_switch sg)
    moreover have "RadiusImpact_forward_defined t (p, b)"
      using gt r1 R(1,2,4,5) Ab
      by (simp add: RadiusImpact_forward_defined_def in_unit_def)
    ultimately show ?thesis by simp
  qed
  then show "RadiusImpact_forward_defined t (p, b)"
    and "RadiusImpact_backward t (RadiusImpact_forward t (p, b)) = (p, b)"
    by simp_all
qed

lemma forward_defined_simple:
  "- 1 < x \<Longrightarrow> x < 1 \<Longrightarrow> AbsoluteValue_forward_defined x"
  "sum_list (map (\<lambda>c. c ^ 2) v) = 1 \<Longrightarrow> UnitVector_backward_defined (UnitVector_forward v)"
  "- 1 < fst d \<Longrightarrow> fst d < 1 \<Longrightarrow> UnitDisk_forward_defined d"
  "Periodic_init lower upper = Inr tp \<Longrightarrow> lower < upper \<Longrightarrow> Periodic_forward_defined tp xp"
  "ImpactParameter_init ror = Inr ti \<Longrightarrow> 0 < xi \<Longrightarrow> xi < 1 + ror
     \<Longrightarrow> ImpactParameter_forward_defined ti xi"
proof -
  show "AbsoluteValue_forward_defined x" if "- 1 < x" "x < 1"
    using that by (simp add: AbsoluteValue_forward_defined_def in_unit_def)
  show "UnitVector_backward_defined (UnitVector_forward v)"
    if "sum_list (map (\<lambda>c. c ^ 2) v) = 1"
    using that by (simp add: UnitVector_backward_defined_def UnitVector_forward_def)
  show "UnitDisk_forward_defined d" if "- 1 < fst d" "fst d < 1"
  proof -
    have "\<bar>fst d\<bar> < 1" using that by (simp add: abs_less_iff)
    then have "(fst d)\<^sup>2 < 1" by (simp add: abs_square_less_1)
    then show ?thesis by (simp add: UnitDisk_forward_defined_def)
  qed
  show "Periodic_forward_defined tp xp" if "Periodic_init lower upper = Inr tp" "lower < upper"
    using that by (auto simp: Periodic_forward_defined_def Periodic_init_def)
  show "ImpactParameter_forward_defined ti xi"
    if "ImpactParameter_init ror = Inr ti" "0 < xi" "xi < 1 + ror"
    using that by (auto simp: ImpactParameter_forward_defined_def ImpactParameter_init_def in_unit_def)
qed

lemma QuadLimbDark_forward_is_defined:
  assumes "0 < fst x" and "fst x + snd x < 1" and "0 < fst x + 2 * snd x"
  shows "QuadLimbDark_forward_defined x"
proof -
  define S where "S = fst x + snd x"
  have S: "0 < S" "S < 1" using assms by (simp_all add: S_def)
  have "\<bar>S\<bar> < 1" using S by simp
  then have q0: "0 < S\<^sup>2" "S\<^sup>2 < 1"
    using S by (simp_all add: abs_square_less_1)
  have q1: "0 < fst x / 2 / S" "fst x / 2 / S < 1"
    using S assms by (simp_all add: S_def field_simps)
  show ?thesis
    using S q0 q1 by (simp add: QuadLimbDark_forward_defined_def in_unit_def S_def)
qed

text \<open>
  C2 (as the program behaves). For every transform class of the module, on its constrained
  domain, \<open>forward\<close> applies its primitives inside their domains and \<open>backward\<close> after
  \<open>forward\<close> gives the input back, with two exceptions. \<open>AbsoluteValueTransform\<close>
  gives \<open>\<bar>x\<bar>\<close> back for \<open>x\<close> in \<open>(-1, 1)\<close>, which is \<open>x\<close> only for \<open>0 \<le> x\<close>.
  For \<open>RadiusImpactTransform\<close> with \<open>0 \<le> min_radius < max_radius\<close> and
  \<open>min_radius < p < max_radius\<close> the round trip is proved for \<open>0 < b \<le> 1\<close> with
  \<open>b < 1 + min_radius\<close> and for \<open>1 + min_radius < b < 1 + p\<close>; nothing is stated for
  the other \<open>b\<close>. The domains: unit vectors for \<open>UnitVectorTransform\<close>; first
  coordinate in \<open>(-1, 1)\<close> for \<open>UnitDiskTransform\<close>; \<open>(-pi, pi]\<close> for
  \<open>AngleTransform\<close>; \<open>(lower, upper]\<close> for \<open>PeriodicTransform\<close>; the triangle
  \<open>0 < u0\<close>, \<open>u0 + u1 < 1\<close>, \<open>0 < u0 + 2 * u1\<close> for \<open>QuadLimbDarkTransform\<close>;
  \<open>(0, 1 + ror)\<close> for \<open>ImpactParameterTransform\<close>.
\<close>

theorem transforms_roundtrip:
  "(- 1 < x \<and> x < 1 \<longrightarrow>
      AbsoluteValue_forward_defined x
      \<and> AbsoluteValue_backward (AbsoluteValue_forward x) = \<bar>x\<bar>)
   \<and> (sum_list (map (\<lambda>c. c ^ 2) v) = 1 \<longrightarrow>
      UnitVector_backward_defined (UnitVector_forward v)
      \<and> UnitVector_backward (UnitVector_forward v) = v)
   \<and> (- 1 < fst d \<and> fst d < 1 \<longrightarrow>
      UnitDisk_forward_defined d \<and> UnitDisk_backward (UnitDisk_forward d) = d)
   \<and> (- pi < a \<and> a \<le> pi \<longrightarrow> Angle_backward (Angle_forward a) = a)
   \<and> (Periodic_init lower upper = Inr tp \<and> lower < upper \<and> lower < xp \<and> xp \<le> upper \<longrightarrow>
      Periodic_forward_defined tp xp \<and> Periodic_backward tp (Periodic_forward tp xp) = xp)
   \<and> (0 < fst u \<and> fst u + snd u < 1 \<and> 0 < fst u + 2 * snd u \<longrightarrow>
      QuadLimbDark_forward_defined u \<and> QuadLimbDark_backward (QuadLimbDark_forward u) = u)
   \<and> (RadiusImpact_init pl pu = Inr t \<and> 0 \<le> pl \<and> pl < pu \<and> pl < p \<and> p < pu
        \<and> ((0 < b \<and> b \<le> 1 \<and> b < 1 + pl) \<or> (1 + pl < b \<and> b < 1 + p)) \<longrightarrow>
      RadiusImpact_forward_defined t (p, b)
      \<and> RadiusImpact_backward_defined t (RadiusImpact_forward t (p, b))
      \<and> RadiusImpact_backward t (RadiusImpact_forward t (p, b)) = (p, b))
   \<and> (ImpactParameter_init ror = Inr ti \<and> 0 < xi \<and> xi < 1 + ror \<longrightarrow>
      ImpactParameter_forward_defined ti xi
      \<and> ImpactParameter_backward ti (ImpactParameter_forward ti xi) = xi)"
proof (intro conjI impI; (elim conjE)?)
  show "AbsoluteValue_forward_defined x" if "- 1 < x" "x < 1"
    using that by (rule forward_defined_simple)
  show "AbsoluteValue_backward (AbsoluteValue_forward x) = \<bar>x\<bar>" if "- 1 < x" "x < 1"
    using that by (rule AbsoluteValue_roundtrip)
  show "UnitVector_backward_defined (UnitVector_forward v)"
    if "sum_list (map (\<lambda>c. c ^ 2) v) = 1"
    using that by (rule forward_defined_simple)
  show "UnitVector_backward (UnitVector_forward v) = v"
    if "sum_list (map (\<lambda>c. c ^ 2) v) = 1"
    using that by (rule UnitVector_roundtrip)
  show "UnitDisk_forward_defined d" if "- 1 < fst d" "fst d < 1"
    using that by (rule forward_defined_simple)
  show "UnitDisk_backward (UnitDisk_forward d) = d" if "- 1 < fst d" "fst d < 1"
    using that by (rule UnitDisk_roundtrip)
  show "Angle_backward (Angle_forward a) = a" if "- pi < a" "a \<le> pi"
    using that by (rule Angle_roundtrip)
  show "Periodic_forward_defined tp xp"
    if "Periodic_init lower upper = Inr tp" "lower < upper" "lower < xp" "xp \<le> upper"
    using that(1,2) by (rule forward_defined_simple)
  show "Periodic_backward tp (Periodic_forward tp xp) = xp"
    if "Periodic_init lower upper = Inr tp" "lower < upper" "lower < xp" "xp \<le> upper"
    using that by (rule Periodic_roundtrip)
  show "QuadLimbDark_forward_defined u"
    if "0 < fst u" "fst u + snd u < 1" "0 < fst u + 2 * snd u"
    using that by (rule QuadLimbDark_forward_is_defined)
  show "QuadLimbDark_backward (QuadLimbDark_forward u) = u"
    if "0 < fst u" "fst u + snd u < 1" "0 < fst u + 2 * snd u"
    using that by (rule QuadLimbDark_roundtrip)
  show "RadiusImpact_forward_defined t (p, b)"
    if "RadiusImpact_init pl pu = Inr t" "0 \<le> pl" "pl < pu" "pl < p" "p < pu"
      "(0 < b \<and> b \<le> 1 \<and> b < 1 + pl) \<or> (1 + pl < b \<and> b < 1 + p)"
    using that by (rule RadiusImpact_roundtrip)
  show "RadiusImpact_backward_defined t (RadiusImpact_forward t (p, b))"
    if "RadiusImpact_init pl pu = Inr t" "0 \<le> pl" "pl < pu" "pl < p" "p < pu"
      "(0 < b \<and> b \<le> 1 \<and> b < 1 + pl) \<or> (1 + pl < b \<and> b < 1 + p)"
    using RadiusImpact_backward_always_defined [OF that(1,2,3)] by simp
  show "RadiusImpact_backward t (RadiusImpact_forward t (p, b)) = (p, b)"
    if "RadiusImpact_init pl pu = Inr t" "0 \<le> pl" "pl < pu" "pl < p" "p < pu"
      "(0 < b \<and> b \<le> 1 \<and> b < 1 + pl) \<or> (1 + pl < b \<and> b < 1 + p)"
    using that by (rule RadiusImpact_roundtrip)
  show "ImpactParameter_forward_defined ti xi"
    if "ImpactParameter_init ror = Inr ti" "0 < xi" "xi < 1 + ror"
    using that by (rule forward_defined_simple)
  show "ImpactParameter_backward ti (ImpactParameter_forward ti xi) = xi"
    if "ImpactParameter_init ror = Inr ti" "0 < xi" "xi < 1 + ror"
    using that by (rule ImpactParameter_roundtrip)
qed

theorem transforms_roundtrip_witness:
  "(- 1 < (1 / 2 :: real) \<and> (1 / 2 :: real) < 1)
   \<and> AbsoluteValue_backward (AbsoluteValue_forward (1 / 2)) = \<bar>1 / 2\<bar>
   \<and> sum_list (map (\<lambda>c. c ^ 2) [1, 0 :: real]) = 1
   \<and> UnitVector_backward (UnitVector_forward [1, 0]) = [1, 0]
   \<and> (- 1 < fst (0 :: real, 1 / 2 :: real) \<and> fst (0 :: real, 1 / 2 :: real) < 1)
   \<and> UnitDisk_backward (UnitDisk_forward (0, 1 / 2)) = (0, 1 / 2)
   \<and> (- pi < 0 \<and> 0 \<le> pi)
   \<and> Angle_backward (Angle_forward 0) = 0
   \<and> (Periodic_init 0 1 = Inr \<lparr>mid = 1 / 2, delta = 1 / (2 * pi)\<rparr>
        \<and> (0 :: real) < 1 \<and> (0 :: real) < 1 / 4 \<and> (1 / 4 :: real) \<le> 1)
   \<and> Periodic_backward \<lparr>mid = 1 / 2, delta = 1 / (2 * pi)\<rparr>
        (Periodic_forward \<lparr>mid = 1 / 2, delta = 1 / (2 * pi)\<rparr> (1 / 4)) = 1 / 4
   \<and> (0 < fst (1 / 2 :: real, 0 :: real) \<and> fst (1 / 2 :: real, 0 :: real) + snd (1 / 2 :: real, 0 :: real) < 1
        \<and> 0 < fst (1 / 2 :: real, 0 :: real) + 2 * snd (1 / 2 :: real, 0 :: real))
   \<and> QuadLimbDark_backward (QuadLimbDark_forward (1 / 2, 0)) = (1 / 2, 0)
   \<and> (RadiusImpact_init 0 (1 / 5) = Inr \<lparr>min_radius = 0, max_radius = 1 / 5, dr = 1 / 5, Ar = 1 / 11\<rparr>
        \<and> (0 :: real) \<le> 0 \<and> (0 :: real) < 1 / 5 \<and> (0 :: real) < 1 / 10 \<and> (1 / 10 :: real) < 1 / 5
        \<and> (((0 :: real) < 3 / 10 \<and> (3 / 10 :: real) \<le> 1 \<and> (3 / 10 :: real) < 1 + 0)
             \<or> ((1 :: real) + 0 < 3 / 10 \<and> (3 / 10 :: real) < 1 + 1 / 10)))
   \<and> RadiusImpact_backward \<lparr>min_radius = 0, max_radius = 1 / 5, dr = 1 / 5, Ar = 1 / 11\<rparr>
        (RadiusImpact_forward \<lparr>min_radius = 0, max_radius = 1 / 5, dr = 1 / 5, Ar = 1 / 11\<rparr>
          (1 / 10, 3 / 10)) = (1 / 10, 3 / 10)
   \<and> (ImpactParameter_init 1 = Inr \<lparr>one_plus_ror = 2\<rparr> \<and> (0 :: real) < 1 \<and> (1 :: real) < 1 + 1)
   \<and> ImpactParameter_backward \<lparr>one_plus_ror = 2\<rparr> (ImpactParameter_forward \<lparr>one_plus_ror = 2\<rparr> 1) = 1"
proof -
  let ?tp = "\<lparr>mid = 1 / 2, delta = 1 / (2 * pi)\<rparr>"
  let ?t = "\<lparr>min_radius = 0, max_radius = 1 / 5, dr = 1 / 5, Ar = 1 / 11\<rparr>"
  let ?ti = "\<lparr>one_plus_ror = 2\<rparr>"
  note T = transforms_roundtrip [of "1 / 2" "[1, 0]" "(0, 1 / 2)" 0 0 1 ?tp "1 / 4" "(1 / 2, 0)"
      0 "1 / 5" ?t "1 / 10" "3 / 10" 1 ?ti 1]
  have h1: "- 1 < (1 / 2 :: real) \<and> (1 / 2 :: real) < 1" by simp
  have h2: "sum_list (map (\<lambda>c. c ^ 2) [1, 0 :: real]) = 1" by simp
  have h3: "- 1 < fst (0 :: real, 1 / 2 :: real) \<and> fst (0 :: real, 1 / 2 :: real) < 1" by simp
  have h4: "- pi < 0 \<and> 0 \<le> pi" by simp
  have h5: "Periodic_init 0 1 = Inr ?tp \<and> (0 :: real) < 1 \<and> (0 :: real) < 1 / 4 \<and> (1 / 4 :: real) \<le> 1"
    by (simp add: Periodic_init_def)
  have h6: "0 < fst (1 / 2 :: real, 0 :: real) \<and> fst (1 / 2 :: real, 0 :: real) + snd (1 / 2 :: real, 0 :: real) < 1
        \<and> 0 < fst (1 / 2 :: real, 0 :: real) + 2 * snd (1 / 2 :: real, 0 :: real)" by simp
  have h7: "RadiusImpact_init 0 (1 / 5) = Inr ?t
        \<and> (0 :: real) \<le> 0 \<and> (0 :: real) < 1 / 5 \<and> (0 :: real) < 1 / 10 \<and> (1 / 10 :: real) < 1 / 5
        \<and> (((0 :: real) < 3 / 10 \<and> (3 / 10 :: real) \<le> 1 \<and> (3 / 10 :: real) < 1 + 0)
             \<or> ((1 :: real) + 0 < 3 / 10 \<and> (3 / 10 :: real) < 1 + 1 / 10))"
    by (simp add: RadiusImpact_init_def Let_def)
  have h8: "ImpactParameter_init 1 = Inr ?ti \<and> (0 :: real) < 1 \<and> (1 :: real) < 1 + 1"
    by (simp add: ImpactParameter_init_def)
  from T h1 h2 h3 h4 h5 h6 h7 h8 show ?thesis
    by blast
qed

text \<open>
  \<open>AbsoluteValueTransform\<close> at \<open>x = -1/2\<close>, a point of its domain: the round trip
  gives \<open>1/2\<close>.
\<close>

theorem AbsoluteValue_roundtrip_loses_sign:
  "- 1 < (- (1 / 2) :: real) \<and> (- (1 / 2) :: real) < 1
   \<and> AbsoluteValue_backward (AbsoluteValue_forward (- (1 / 2))) = 1 / 2
   \<and> AbsoluteValue_backward (AbsoluteValue_forward (- (1 / 2))) \<noteq> - (1 / 2)"
proof -
  have h: "- 1 < (- (1 / 2) :: real)" "(- (1 / 2) :: real) < 1" by simp_all
  from AbsoluteValue_roundtrip [OF h] show ?thesis by simp
qed

text \<open>
  The values of \<open>b\<close> that the theorem leaves out are not a restriction of the proof.
  \<open>backward\<close> reaches every \<open>b\<close> below \<open>1 + min_radius\<close> through its first branch,
  but \<open>forward\<close> sends every \<open>b > 1\<close> to its second branch. For \<open>1 < b\<close> with
  \<open>b \<le> 1 + min_radius\<close> that branch divides by zero or gives an \<open>r22\<close> outside
  \<open>(0, 1)\<close>, so the final logit has no value and there is nothing for \<open>backward\<close> to
  take back. With bounds \<open>1/10\<close> and \<open>3/10\<close> and \<open>(p, b) = (1/5, 21/20)\<close>, for one,
  \<open>r22 = -1\<close>.
\<close>

lemma RadiusImpact_forward_undefined_between_1_and_1_plus_min_radius:
  assumes t: "RadiusImpact_init pl pu = Inr t" "0 \<le> pl" "pl < pu"
    and p: "pl < p" "p < pu" and b: "1 < b" "b \<le> 1 + pl"
  shows "\<not> RadiusImpact_forward_defined t (p, b)"
proof
  assume d: "RadiusImpact_forward_defined t (p, b)"
  note f = RadiusImpact_init_fields [OF t(1)]
  define a where "a = p - b - (pu - pl) + 1"
  define n where "n = pl - b + 1"
  have n: "0 \<le> n" using b by (simp add: n_def)
  have an: "a < n" using p by (simp add: a_def n_def)
  from d b have nz: "a \<noteq> 0" and u: "in_unit (snd (RadiusImpact_forward_B t p b))"
    by (simp_all add: RadiusImpact_forward_defined_def f a_def)
  have s: "snd (RadiusImpact_forward_B t p b) = n / a"
    by (simp add: RadiusImpact_forward_B_def f a_def n_def)
  from u have r: "0 < n / a" "n / a < 1"
    by (simp_all add: s in_unit_def)
  show False
  proof (cases "0 < a")
    case True
    with r(2) have "n < a" by (simp add: field_simps)
    with an show False by simp
  next
    case False
    with nz have "a < 0" by simp
    with n have "n / a \<le> 0" by (simp add: divide_nonneg_neg)
    with r(1) show False by simp
  qed
qed

end
